theory Spec2Isabelle
  imports Complex_Main "HOL-Library.Word" "HOL-Library.AList"
begin

section \<open>Common types\<close>

text \<open>
  Go's \<open>int\<close> and \<open>int64\<close> are 64-bit two's complement on the platforms the service is
  deployed on; \<open>+\<close>, \<open>-\<close> and \<open>*\<close> wrap around and comparisons read the word with
  \<open>sint\<close>. Go strings are byte sequences, as \<open>string\<close> is here. Points in time and
  durations are nanosecond counts.
\<close>

type_synonym go_int = "64 word"
type_synonym int64 = "64 word"
type_synonym time = int
type_synonym duration = int

definition Millisecond :: duration where "Millisecond = 1000000"
definition Second :: duration where "Second = 1000000000"

text \<open>Every error value the modelled functions build, one constructor per message.\<close>

datatype error =
    ErrDeviceEmpty
  | ErrDirectoryEmpty
  | ErrLogFileEmpty
  | ErrUnsupportedMode string
  | ErrUnsupportedDirection string
  | ErrServerAddressRequired
  | ErrFilenameRequired
  | ErrMaxConcurrent go_int
  | ErrReconnectRequired
  | ErrConfigInvalid error
  | ErrClientOnServer
  | ErrListenerUnsupported
  | ErrAlreadyMonitoring
  | ErrMkdirFailed string string
  | ErrAlreadyRunning
  | ErrProcessStartFailed string
  | ErrNotRunning
  | ErrKillFailed string
  | ErrStopTimeout string
  | ErrCreateWorkDir error
  | ErrCreateLogFile string
  | ErrServerConfigInvalid error
  | ErrStartServerFailed error
  | ErrManageServerFailed error
  | ErrServerExitedEarly go_int
  | ErrParseTransferred
  | ErrParseTotal
  | ErrParsePercent

section \<open>wrapper: the transfer configuration and the command line\<close>

type_synonym TransferMode = string
type_synonym TransferDirection = string

definition ModeHugepages :: TransferMode where "ModeHugepages = ''hugepages''"
definition ModeTmpfs :: TransferMode where "ModeTmpfs = ''tmpfs''"
definition ModeFilesystem :: TransferMode where "ModeFilesystem = ''filesystem''"

definition DirectionPut :: TransferDirection where "DirectionPut = ''put''"
definition DirectionGet :: TransferDirection where "DirectionGet = ''get''"

record TransferConfig =
  Device :: string
  Directory :: string
  Mode :: TransferMode
  Direction :: TransferDirection
  Filename :: string
  ServerAddress :: string
  ChunkSize :: go_int
  LogFile :: string
  NoHuge :: bool
  MMan :: bool

text \<open>\<open>addModeSpecificArgs\<close>: the \<open>switch\<close> on the mode, with no default branch.\<close>

definition addModeSpecificArgs :: "string list \<Rightarrow> TransferConfig \<Rightarrow> string list" where
  "addModeSpecificArgs args config =
     (if Mode config = ModeHugepages then args @ [''--nohuge'', ''--mman'']
      else if Mode config = ModeTmpfs then args @ [''--nohuge'', ''--mman'']
      else if Mode config = ModeFilesystem then
        (if Direction config = [] then args @ [''--nohuge'']
         else (let args1 = (if NoHuge config then args @ [''--nohuge''] else args)
               in if MMan config then args1 @ [''--mman''] else args1))
      else args)"

definition buildServerArgs :: "TransferConfig \<Rightarrow> string list" where
  "buildServerArgs config =
     addModeSpecificArgs
       [''-d'', Device config, ''--dir'', Directory config, ''-l'', ''0'',
        ''--logfile'', LogFile config] config"

text \<open>
  \<open>filepath.Base\<close> of the Go library on a slash-separated path: the last element, after
  trailing slashes are dropped; \<open>.\<close> for the empty path and \<open>/\<close> for a path of slashes.
\<close>

definition filepath_Base :: "string \<Rightarrow> string" where
  "filepath_Base path =
     (if path = [] then ''.''
      else (let p = rev (dropWhile (\<lambda>c. c = CHR ''/'') (rev path));
                b = rev (takeWhile (\<lambda>c. c \<noteq> CHR ''/'') (rev p))
            in if b = [] then ''/'' else b))"

definition buildClientArgs :: "TransferConfig \<Rightarrow> string list" where
  "buildClientArgs config =
     (let args = addModeSpecificArgs
                   [''-d'', Device config, ''-c'', ServerAddress config,
                    ''--dir'', Directory config, ''--logfile'', LogFile config,
                    ''-m'', ''4096''] config;
          filename = filepath_Base (Filename config)
      in if Direction config = DirectionPut then args @ [''--put'', filename]
         else args @ [''--get'', filename])"

text \<open>\<open>ValidateConfig\<close> returns the first failed check, \<open>None\<close> for Go's \<open>nil\<close>.\<close>

definition ValidateConfig :: "TransferConfig \<Rightarrow> error option" where
  "ValidateConfig config =
     (if Device config = [] then Some ErrDeviceEmpty
      else if Directory config = [] then Some ErrDirectoryEmpty
      else if LogFile config = [] then Some ErrLogFileEmpty
      else if \<not> (Mode config = ModeHugepages \<or> Mode config = ModeTmpfs
                  \<or> Mode config = ModeFilesystem)
        then Some (ErrUnsupportedMode (Mode config))
      else if Direction config \<noteq> [] then
        (if \<not> (Direction config = DirectionPut \<or> Direction config = DirectionGet)
           then Some (ErrUnsupportedDirection (Direction config))
         else if Direction config = DirectionPut \<or> Direction config = DirectionGet then
           (if ServerAddress config = [] then Some ErrServerAddressRequired
            else if Filename config = [] then Some ErrFilenameRequired
            else None)
         else None)
      else None)"

section \<open>models: request and settings\<close>

record TransferRequest =
  req_Filename :: string
  req_Mode :: string
  req_Direction :: string
  req_ServerIP :: string

record ModeConfig =
  Enabled :: bool
  BaseDir :: string

record TransferModes =
  Hugepages :: ModeConfig
  Tmpfs :: ModeConfig
  Filesystem :: ModeConfig

record TransferSettings =
  set_Device :: string
  set_BaseDir :: string
  TransferInterval :: duration
  MaxConcurrentTransfers :: go_int
  set_ChunkSize :: go_int
  Modes :: TransferModes
  DefaultMode :: string
  set_ServerAddress :: string

section \<open>transfer: building the two configurations\<close>

text \<open>\<open>getFileName\<close>: the text after the last slash, unless the slash is the last byte.\<close>

definition getFileName :: "string \<Rightarrow> string" where
  "getFileName filepath =
     (let after = rev (takeWhile (\<lambda>c. c \<noteq> CHR ''/'') (rev filepath))
      in if CHR ''/'' \<in> set filepath \<and> after \<noteq> [] then after else filepath)"

text \<open>
  \<open>getFileDirectory\<close>: for an absolute path the text before its last slash, when that
  slash is not the first byte; \<open>.\<close> otherwise.
\<close>

definition getFileDirectory :: "string \<Rightarrow> string" where
  "getFileDirectory filename =
     (if filename \<noteq> [] \<and> hd filename = CHR ''/'' then
        (let lastSlash = length filename - 1
                         - length (takeWhile (\<lambda>c. c \<noteq> CHR ''/'') (rev filename))
         in if lastSlash > 0 then take lastSlash filename else ''.'')
      else ''.'')"

text \<open>
  \<open>buildTransferConfig\<close> of the transfer service. The log file name ends in the wall
  clock formatted as \<open>20060102_150405\<close>; the formatted text is the input \<open>stamp\<close>.
  The flags are assigned in the \<open>switch\<close> on the mode, before the direction is checked.
\<close>

definition transferLogFile :: "string \<Rightarrow> string \<Rightarrow> string" where
  "transferLogFile direction stamp =
     ''/var/log/rtrans/rtrans_'' @ direction @ ''_'' @ stamp @ ''.log''"

definition buildTransferConfig ::
    "string \<Rightarrow> TransferRequest \<Rightarrow> TransferSettings \<Rightarrow> error + TransferConfig" where
  "buildTransferConfig stamp req serverConfig =
     (let client = (req_Direction req = DirectionPut \<or> req_Direction req = DirectionGet);
          config0 = \<lparr> Device = set_Device serverConfig, Directory = [], Mode = [],
                      Direction = [], Filename = [], ServerAddress = [],
                      ChunkSize = set_ChunkSize serverConfig, LogFile = [],
                      NoHuge = False, MMan = False \<rparr>;
          byMode =
            (if req_Mode req = ModeHugepages then
               Inr (if client
                    then config0 \<lparr> Mode := ModeHugepages,
                           Directory := BaseDir (Hugepages (Modes serverConfig)),
                           NoHuge := True, MMan := True \<rparr>
                    else config0 \<lparr> Mode := ModeHugepages,
                           Directory := BaseDir (Hugepages (Modes serverConfig)),
                           NoHuge := False, MMan := False \<rparr>)
             else if req_Mode req = ModeTmpfs then
               Inr (if client
                    then config0 \<lparr> Mode := ModeTmpfs,
                           Directory := BaseDir (Tmpfs (Modes serverConfig)),
                           NoHuge := False, MMan := True \<rparr>
                    else config0 \<lparr> Mode := ModeTmpfs,
                           Directory := BaseDir (Tmpfs (Modes serverConfig)),
                           NoHuge := True, MMan := True \<rparr>)
             else if req_Mode req = ModeFilesystem then
               (let dir = (if req_Direction req = DirectionPut
                           then getFileDirectory (req_Filename req)
                           else BaseDir (Filesystem (Modes serverConfig)))
                in Inr (if client
                        then config0 \<lparr> Mode := ModeFilesystem, Directory := dir,
                               NoHuge := False, MMan := False \<rparr>
                        else config0 \<lparr> Mode := ModeFilesystem, Directory := dir,
                               NoHuge := True, MMan := False \<rparr>))
             else Inl (ErrUnsupportedMode (req_Mode req)))
      in case byMode of
           Inl e \<Rightarrow> Inl e
         | Inr config1 \<Rightarrow>
             if \<not> client then Inl (ErrUnsupportedDirection (req_Direction req))
             else Inr (config1 \<lparr> Direction := req_Direction req,
                                 Filename := getFileName (req_Filename req),
                                 ServerAddress :=
                                   (if set_ServerAddress serverConfig \<noteq> []
                                    then set_ServerAddress serverConfig else ''localhost''),
                                 LogFile := transferLogFile (req_Direction req) stamp \<rparr>))"

text \<open>
  \<open>buildTransferConfig\<close> of the client transfer service, which runs the transfer side:
  the same flags for a mode, the directory of the file as working directory, and the
  host part of the server URL as peer address.
\<close>

record ClientTransferService =
  cts_serverURL :: string
  cts_rtranfilePath :: string
  cts_config :: "TransferSettings option"

definition strings_Index_colon :: "string \<Rightarrow> int" where
  "strings_Index_colon s =
     (if CHR '':'' \<in> set s then int (length (takeWhile (\<lambda>c. c \<noteq> CHR '':'') s)) else - 1)"

definition client_buildTransferConfig ::
    "string \<Rightarrow> ClientTransferService \<Rightarrow> TransferRequest \<Rightarrow> error + TransferConfig" where
  "client_buildTransferConfig stamp cts req =
     (let device = (case cts_config cts of
                      Some c \<Rightarrow> if set_Device c \<noteq> [] then set_Device c else ''mlx5_0''
                    | None \<Rightarrow> ''mlx5_0'');
          chunkSize = (case cts_config cts of
                         Some c \<Rightarrow> if 0 < sint (set_ChunkSize c) then set_ChunkSize c
                                   else 4194304
                       | None \<Rightarrow> 4194304);
          config0 = \<lparr> Device = device, Directory = getFileDirectory (req_Filename req),
                      Mode = [], Direction = [], Filename = [], ServerAddress = [],
                      ChunkSize = chunkSize, LogFile = [], NoHuge = False, MMan = False \<rparr>;
          byMode =
            (if req_Mode req = ModeHugepages then
               Inr (config0 \<lparr> Mode := ModeHugepages, NoHuge := True, MMan := True \<rparr>)
             else if req_Mode req = ModeTmpfs then
               Inr (config0 \<lparr> Mode := ModeTmpfs, NoHuge := False, MMan := True \<rparr>)
             else if req_Mode req = ModeFilesystem then
               Inr (config0 \<lparr> Mode := ModeFilesystem, NoHuge := False, MMan := False \<rparr>)
             else Inl (ErrUnsupportedMode (req_Mode req)))
      in case byMode of
           Inl e \<Rightarrow> Inl e
         | Inr config1 \<Rightarrow>
             if \<not> (req_Direction req = DirectionPut \<or> req_Direction req = DirectionGet)
               then Inl (ErrUnsupportedDirection (req_Direction req))
             else
               (let host0 = (if 7 < length (cts_serverURL cts) then drop 7 (cts_serverURL cts)
                             else cts_serverURL cts);
                    host = (if 0 < strings_Index_colon host0
                            then take (nat (strings_Index_colon host0)) host0 else host0)
                in Inr (config1 \<lparr> Direction := req_Direction req,
                                   Filename := req_Filename req,
                                   ServerAddress := host,
                                   LogFile := ''/var/log/rtrans/client_'' @ req_Direction req
                                              @ ''_'' @ stamp @ ''.log'' \<rparr>)))"

text \<open>
  The listener configuration that \<open>ensureServerProcessStarted\<close> builds from the mode of
  the prepared configuration: the service's own settings when it has them, the built-in
  directories otherwise. Both \<open>switch\<close> statements assign the same flags.
\<close>

definition listenerConfig ::
    "TransferSettings option \<Rightarrow> TransferConfig \<Rightarrow> error + TransferConfig" where
  "listenerConfig serverConfig config =
     (let params =
            (if Mode config = ModeHugepages then
               Some (case serverConfig of None \<Rightarrow> ''/dev/hugepages/dir''
                     | Some sc \<Rightarrow> BaseDir (Hugepages (Modes sc)), False, False)
             else if Mode config = ModeTmpfs then
               Some (case serverConfig of None \<Rightarrow> ''/dev/shm/dir''
                     | Some sc \<Rightarrow> BaseDir (Tmpfs (Modes sc)), True, True)
             else if Mode config = ModeFilesystem then
               Some (case serverConfig of None \<Rightarrow> ''/var/lib/rtrans/files''
                     | Some sc \<Rightarrow> BaseDir (Filesystem (Modes sc)), False, False)
             else None)
      in case params of
           None \<Rightarrow> Inl (ErrUnsupportedMode (Mode config))
         | Some (baseDir, noHuge, mMan) \<Rightarrow>
             Inr \<lparr> Device = Device config, Directory = baseDir, Mode = Mode config,
                   Direction = [], Filename = [], ServerAddress = [], ChunkSize = 0,
                   LogFile = ''/var/log/rtrans/rtranfile_server_'' @ Mode config @ ''.log'',
                   NoHuge = noHuge, MMan = mMan \<rparr>)"

section \<open>wrapper: the log parser\<close>

type_synonym TransferStatus = string

definition StatusPending :: TransferStatus where "StatusPending = ''pending''"
definition StatusStarting :: TransferStatus where "StatusStarting = ''starting''"
definition StatusInProgress :: TransferStatus where "StatusInProgress = ''in_progress''"
definition StatusCompleted :: TransferStatus where "StatusCompleted = ''completed''"
definition StatusFailed :: TransferStatus where "StatusFailed = ''failed''"
definition StatusCancelled :: TransferStatus where "StatusCancelled = ''cancelled''"

text \<open>
  Letter case on ASCII bytes, as \<open>unicode.ToLower\<close> and \<open>unicode.ToUpper\<close> act there.
  \<open>strings.ToUpper\<close> is modelled bytewise. On a text with bytes beyond ASCII the Go
  function also maps letters of other scripts and replaces invalid bytes; no such text
  has an upper-case form among \<open>GB\<close>, \<open>MB\<close>, \<open>KB\<close> and \<open>B\<close>, the only texts the
  result is compared with.
\<close>

definition is_upper :: "char \<Rightarrow> bool" where
  "is_upper c \<longleftrightarrow> 65 \<le> (of_char c :: nat) \<and> (of_char c :: nat) \<le> 90"

definition is_lower :: "char \<Rightarrow> bool" where
  "is_lower c \<longleftrightarrow> 97 \<le> (of_char c :: nat) \<and> (of_char c :: nat) \<le> 122"

definition to_lower :: "char \<Rightarrow> char" where
  "to_lower c = (if is_upper c then char_of (of_char c + 32 :: nat) else c)"

definition to_upper :: "char \<Rightarrow> char" where
  "to_upper c = (if is_lower c then char_of (of_char c - 32 :: nat) else c)"

definition strings_ToUpper :: "string \<Rightarrow> string" where
  "strings_ToUpper s = map to_upper s"

text \<open>
  The three patterns of \<open>NewLogParser\<close> are values of the type \<open>re\<close>, which has the
  constructs they use: literals, one-byte classes, greedy repetition of a class,
  sequence, alternation and numbered groups. All three patterns carry the flag
  \<open>(?i)\<close>, so a literal letter stands for its whole case-folding orbit; for \<open>k\<close>
  and \<open>s\<close> the orbit includes the Kelvin sign and the long s, which are three and two bytes of
  UTF-8. \<open>rmatch r s caps\<close> lists the ways \<open>r\<close> matches a prefix of \<open>s\<close>, as the rest of
  the input with the groups captured, in the order a backtracking matcher tries them:
  the head of the list is the leftmost-first match that Go's \<open>regexp\<close> reports.
\<close>

datatype re =
    Eps
  | Lit char
  | Cls string
  | Many0 string
  | Many1 string
  | Seq re re
  | Alt re re
  | Grp nat re

type_synonym caps = "(nat \<times> string) list"

definition kelvin_sign :: string where
  "kelvin_sign = [char_of (226::nat), char_of (132::nat), char_of (170::nat)]"

definition long_s :: string where
  "long_s = [char_of (197::nat), char_of (191::nat)]"

definition lit_forms :: "char \<Rightarrow> string list" where
  "lit_forms c =
     (let l = to_lower c; u = to_upper c
      in if l = u then [[c]]
         else [[l], [u]] @ (if l = CHR ''k'' then [kelvin_sign]
                            else if l = CHR ''s'' then [long_s] else []))"

fun rmatch :: "re \<Rightarrow> string \<Rightarrow> caps \<Rightarrow> (string \<times> caps) list" where
  "rmatch Eps s caps = [(s, caps)]"
| "rmatch (Lit c) s caps =
     concat (map (\<lambda>f. if take (length f) s = f then [(drop (length f) s, caps)] else [])
                 (lit_forms c))"
| "rmatch (Cls cs) s caps =
     (case s of [] \<Rightarrow> [] | x # xs \<Rightarrow> if x \<in> set cs then [(xs, caps)] else [])"
| "rmatch (Many0 cs) s caps =
     map (\<lambda>k. (drop k s, caps)) (rev [0 ..< Suc (length (takeWhile (\<lambda>x. x \<in> set cs) s))])"
| "rmatch (Many1 cs) s caps =
     map (\<lambda>k. (drop k s, caps)) (rev [1 ..< Suc (length (takeWhile (\<lambda>x. x \<in> set cs) s))])"
| "rmatch (Seq r1 r2) s caps =
     concat (map (\<lambda>(s1, caps1). rmatch r2 s1 caps1) (rmatch r1 s caps))"
| "rmatch (Alt r1 r2) s caps = rmatch r1 s caps @ rmatch r2 s caps"
| "rmatch (Grp i r) s caps =
     map (\<lambda>(s1, caps1). (s1, (i, take (length s - length s1) s) # caps1)) (rmatch r s caps)"

text \<open>
  The patterns are not anchored: the match is tried from each position of the line in
  turn, and the first position with a match gives the groups.
\<close>

fun FindStringSubmatch :: "re \<Rightarrow> string \<Rightarrow> caps option" where
  "FindStringSubmatch r [] = (case rmatch r [] [] of [] \<Rightarrow> None | (s1, caps) # _ \<Rightarrow> Some caps)"
| "FindStringSubmatch r (x # xs) =
     (case rmatch r (x # xs) [] of
        [] \<Rightarrow> FindStringSubmatch r xs
      | (s1, caps) # _ \<Rightarrow> Some caps)"

declare rmatch.simps [simp del] FindStringSubmatch.simps [simp del]

definition MatchString :: "re \<Rightarrow> string \<Rightarrow> bool" where
  "MatchString r s = (FindStringSubmatch r s \<noteq> None)"

definition submatch :: "caps \<Rightarrow> nat \<Rightarrow> string" where
  "submatch caps i = (case map_of caps i of None \<Rightarrow> [] | Some s \<Rightarrow> s)"

definition lits :: "string \<Rightarrow> re" where
  "lits w = foldr (\<lambda>c r. Seq (Lit c) r) w Eps"

definition seqs :: "re list \<Rightarrow> re" where
  "seqs rs = foldr Seq rs Eps"

definition alts :: "string list \<Rightarrow> re" where
  "alts ws = foldr (\<lambda>w r. Alt (lits w) r) (butlast ws) (lits (last ws))"

text \<open>The classes \<open>\\s\<close> (tab, line feed, form feed, carriage return, space) and \<open>\\d\<close>.\<close>

definition cls_s :: string where
  "cls_s = [char_of (9::nat), char_of (10::nat), char_of (12::nat), char_of (13::nat), CHR '' '']"
definition cls_d :: string where "cls_d = ''0123456789''"

definition unitRe :: re where "unitRe = alts [''MB'', ''GB'', ''KB'', ''B'']"

text \<open>
  \<^verbatim>\<open>(?i)transferred\s+(\d+)\s*(MB|GB|KB|B)\s+of\s+(\d+)\s*(MB|GB|KB|B)\s*\(([\d.]+)%\)\<close>,
  \<^verbatim>\<open>(?i)(error|failed|failure|exception)\<close> and \<^verbatim>\<open>(?i)(completed|finished|success)\<close>.
\<close>

definition progressRegex :: re where
  "progressRegex =
     seqs [lits ''transferred'', Many1 cls_s, Grp 1 (Many1 cls_d), Many0 cls_s,
           Grp 2 unitRe, Many1 cls_s, lits ''of'', Many1 cls_s, Grp 3 (Many1 cls_d),
           Many0 cls_s, Grp 4 unitRe, Many0 cls_s, Lit CHR ''('',
           Grp 5 (Many1 (cls_d @ ''.'')), Lit CHR ''%'', Lit CHR '')'']"

definition errorRegex :: re where
  "errorRegex = Grp 1 (alts [''error'', ''failed'', ''failure'', ''exception''])"

definition completeRegex :: re where
  "completeRegex = Grp 1 (alts [''completed'', ''finished'', ''success''])"

record ProgressInfo =
  Status :: TransferStatus
  BytesTransferred :: int64
  TotalBytes :: int64
  ProgressPercent :: rat
  TransferRate :: rat
  ElapsedTime :: duration
  EstimatedTime :: duration
  StartTime :: time
  LastUpdateTime :: time
  Error :: string

text \<open>
  \<open>strings.TrimSpace\<close> drops leading and trailing white space: the six ASCII space bytes
  and the UTF-8 encodings of U+0085, U+00A0, U+1680, U+2000 to U+200A, U+2028, U+2029,
  U+202F, U+205F and U+3000.
\<close>

definition ascii_space :: string where
  "ascii_space = [char_of (9::nat), char_of (10::nat), char_of (11::nat), char_of (12::nat),
                  char_of (13::nat), CHR '' '']"

definition utf8_spaces :: "string list" where
  "utf8_spaces =
     [[char_of (194::nat), char_of (133::nat)], [char_of (194::nat), char_of (160::nat)],
      [char_of (225::nat), char_of (154::nat), char_of (128::nat)]]
     @ map (\<lambda>b. [char_of (226::nat), char_of (128::nat), char_of b])
           ([128 ..< 139] @ [168::nat, 169, 175])
     @ [[char_of (226::nat), char_of (129::nat), char_of (159::nat)],
        [char_of (227::nat), char_of (128::nat), char_of (128::nat)]]"

definition space_forms :: "string list" where
  "space_forms = map (\<lambda>c. [c]) ascii_space @ utf8_spaces"

definition leading_form :: "string list \<Rightarrow> string \<Rightarrow> nat" where
  "leading_form forms s =
     (case filter (\<lambda>f. take (length f) s = f) forms of [] \<Rightarrow> 0 | f # _ \<Rightarrow> length f)"

function strip_forms :: "string list \<Rightarrow> string \<Rightarrow> string" where
  "strip_forms forms s =
     (if leading_form forms s = 0 \<or> s = [] then s
      else strip_forms forms (drop (leading_form forms s) s))"
  by pat_completeness auto
termination
  by (relation "measure (\<lambda>(forms, s). length s)") auto

definition strings_TrimSpace :: "string \<Rightarrow> string" where
  "strings_TrimSpace s =
     rev (strip_forms (map rev space_forms) (rev (strip_forms space_forms s)))"

text \<open>
  \<open>strconv.ParseInt(s, 10, 64)\<close> and \<open>strconv.ParseFloat(s, 64)\<close> on the texts the groups
  of \<open>progressRegex\<close> can hold: digits, and digits with dots. \<open>ParseInt\<close> fails above
  \<open>2^63 - 1\<close>. \<open>ParseFloat\<close> fails unless the text is digits with at most one dot and at
  least one digit, and fails on a value that rounds beyond the largest float64. The
  percentage is kept as the exact decimal; Go rounds it to the nearest float64, which is
  the same number whenever the decimal is a float64, as 50.0 is.
\<close>

definition nat_of_digits :: "string \<Rightarrow> nat" where
  "nat_of_digits s = foldl (\<lambda>acc c. 10 * acc + (of_char c - 48)) 0 s"

definition ParseInt :: "string \<Rightarrow> int64 option" where
  "ParseInt s =
     (if s = [] \<or> \<not> list_all (\<lambda>c. c \<in> set cls_d) s then None
      else if nat_of_digits s < 2 ^ 63 then Some (word_of_nat (nat_of_digits s))
      else None)"

definition ParseFloat :: "string \<Rightarrow> rat option" where
  "ParseFloat s =
     (let ip = takeWhile (\<lambda>c. c \<in> set cls_d) s;
          rest = dropWhile (\<lambda>c. c \<in> set cls_d) s;
          fp = tl rest
      in if (rest = [] \<and> ip \<noteq> []) \<or>
            (rest \<noteq> [] \<and> hd rest = CHR ''.'' \<and> list_all (\<lambda>c. c \<in> set cls_d) fp
             \<and> (ip \<noteq> [] \<or> fp \<noteq> []))
         then (let v = of_nat (nat_of_digits (ip @ fp)) / 10 ^ length fp
               in if v < 2 ^ 1024 - 2 ^ 970 then Some v else None)
         else None)"

definition convertToBytes :: "int64 \<Rightarrow> string \<Rightarrow> int64" where
  "convertToBytes v unit_text =
     (let u = strings_ToUpper unit_text
      in if u = ''GB'' then v * 1024 * 1024 * 1024
         else if u = ''MB'' then v * 1024 * 1024
         else if u = ''KB'' then v * 1024
         else if u = ''B'' then v
         else v)"

definition ParseLine :: "time \<Rightarrow> string \<Rightarrow> error + ProgressInfo option" where
  "ParseLine now line =
     (let info = \<lparr> Status = [], BytesTransferred = 0, TotalBytes = 0, ProgressPercent = 0,
                   TransferRate = 0, ElapsedTime = 0, EstimatedTime = 0, StartTime = 0,
                   LastUpdateTime = now, Error = [] \<rparr>
      in if MatchString errorRegex line then
           Inr (Some (info \<lparr> Status := StatusFailed, Error := strings_TrimSpace line \<rparr>))
         else if MatchString completeRegex line then
           Inr (Some (info \<lparr> Status := StatusCompleted, ProgressPercent := 100 \<rparr>))
         else
           (case FindStringSubmatch progressRegex line of
              None \<Rightarrow> Inr None
            | Some matches \<Rightarrow>
                (case ParseInt (submatch matches 1) of
                   None \<Rightarrow> Inl ErrParseTransferred
                 | Some transferred_n \<Rightarrow>
                (case ParseInt (submatch matches 3) of
                   None \<Rightarrow> Inl ErrParseTotal
                 | Some total_n \<Rightarrow>
                (case ParseFloat (submatch matches 5) of
                   None \<Rightarrow> Inl ErrParsePercent
                 | Some percent \<Rightarrow>
                     Inr (Some (info \<lparr> Status := StatusInProgress,
                          BytesTransferred := convertToBytes transferred_n (submatch matches 2),
                          TotalBytes := convertToBytes total_n (submatch matches 4),
                          ProgressPercent := percent \<rparr>)))))))"

text \<open>\<open>has_word_ci w line\<close>: the line contains the lower-case word \<open>w\<close> in some letter case.\<close>

fun has_word_ci :: "string \<Rightarrow> string \<Rightarrow> bool" where
  "has_word_ci w [] = (w = [])"
| "has_word_ci w (c # cs) = (map to_lower (take (length w) (c # cs)) = w \<or> has_word_ci w cs)"


fun no_match_within :: "re \<Rightarrow> string \<Rightarrow> string \<Rightarrow> bool" where
  "no_match_within r [] s = True"
| "no_match_within r (x # pre) s = (rmatch r (x # pre @ s) [] = [] \<and> no_match_within r pre s)"


section \<open>wrapper: the transfer monitor\<close>

record TransferMonitor =
  progress :: ProgressInfo
  logFile :: string
  stopChan_closed :: bool
  isMonitoring :: bool

definition NewTransferMonitor :: "time \<Rightarrow> string \<Rightarrow> TransferMonitor" where
  "NewTransferMonitor now logFile_path =
     \<lparr> progress = \<lparr> Status = StatusPending, BytesTransferred = 0, TotalBytes = 0,
                      ProgressPercent = 0, TransferRate = 0, ElapsedTime = 0,
                      EstimatedTime = 0, StartTime = now, LastUpdateTime = now,
                      Error = [] \<rparr>,
       logFile = logFile_path, stopChan_closed = False, isMonitoring = False \<rparr>"

text \<open>
  \<open>StartMonitoring\<close> marks the monitor and starts the worker \<open>monitorLogFile\<close>, which
  runs on its own from then on.
\<close>

definition StartMonitoring :: "time \<Rightarrow> TransferMonitor \<Rightarrow> error option \<times> TransferMonitor" where
  "StartMonitoring now tm =
     (if isMonitoring tm then (Some ErrAlreadyMonitoring, tm)
      else (None, tm \<lparr> isMonitoring := True,
                        progress := (progress tm) \<lparr> Status := StatusStarting,
                                                    StartTime := now \<rparr> \<rparr>))"

text \<open>
  What the worker meets, in ticks of 100 ms counted from its start: whether \<open>os.Stat\<close> on
  the log file succeeds at a tick, the error of \<open>os.Open\<close> at a tick, and the error of
  the seek to the end of the file.
\<close>

record log_env =
  stat_ok :: "nat \<Rightarrow> bool"
  open_err :: "nat \<Rightarrow> string option"
  seek_err :: "string option"

text \<open>
  The waiting loop of \<open>monitorLogFile\<close>. Its body is a \<open>select\<close> followed by a
  \<open>break\<close>. The \<open>break\<close> in the default branch leaves the \<open>select\<close>; the one after
  the \<open>select\<close> leaves the \<open>for\<close>, with or without the file. So the body runs once: the
  worker returns when the stop channel is closed, goes on at once when the file is
  there, and goes on after one sleep of 100 ms when it is not. The result is the tick at
  which the worker goes on, \<open>None\<close> when it returns.
\<close>

definition waitForLogFile :: "log_env \<Rightarrow> TransferMonitor \<Rightarrow> nat option" where
  "waitForLogFile env tm =
     (if stopChan_closed tm then None
      else if stat_ok env 0 then Some 0
      else Some 1)"

text \<open>
  \<open>monitorLogFile\<close> up to the start of its scanning loop, on the monitor as the worker
  finds it: the tick at which scanning starts (\<open>None\<close> when the worker has returned) and
  the monitor it leaves. The message
  texts of the source are Chinese; here they are rendered in English.
\<close>

definition monitorLogFile :: "log_env \<Rightarrow> TransferMonitor \<Rightarrow> nat option \<times> TransferMonitor" where
  "monitorLogFile env tm =
     (case waitForLogFile env tm of
        None \<Rightarrow> (None, tm)
      | Some t \<Rightarrow>
          (case open_err env t of
             Some e \<Rightarrow>
               (None, tm \<lparr> progress := (progress tm)
                             \<lparr> Status := StatusFailed,
                               Error := ''open log file failed: '' @ e \<rparr> \<rparr>)
           | None \<Rightarrow>
               (case seek_err env of
                  Some e \<Rightarrow>
                    (None, tm \<lparr> progress := (progress tm)
                                  \<lparr> Status := StatusFailed,
                                    Error := ''seek in log file failed: '' @ e \<rparr> \<rparr>)
                | None \<Rightarrow>
                    (Some t, tm \<lparr> progress := (progress tm)
                                    \<lparr> Status := StatusInProgress \<rparr> \<rparr>))))"

text \<open>A log file that is created 200 ms after the worker starts.\<close>

definition late_log_env :: log_env where
  "late_log_env =
     \<lparr> stat_ok = (\<lambda>k. 2 \<le> k),
       open_err = (\<lambda>k. if 2 \<le> k then None else Some ''no such file or directory''),
       seek_err = None \<rparr>"

section \<open>wrapper: the process manager\<close>

type_synonym ProcessState = string

definition StateStarting :: ProcessState where "StateStarting = ''starting''"
definition StateRunning :: ProcessState where "StateRunning = ''running''"
definition StateStopping :: ProcessState where "StateStopping = ''stopping''"
definition StateStopped :: ProcessState where "StateStopped = ''stopped''"
definition StateError :: ProcessState where "StateError = ''error''"

record ProcessInfo =
  PID :: go_int
  State :: ProcessState
  proc_StartTime :: time
  ExitTime :: "time option"
  ExitCode :: "go_int option"
  proc_Error :: string
  CommandLine :: string

text \<open>
  An \<open>exec.Cmd\<close> is its path and its argument vector (the path first). The manager
  keeps a command only once it has been started, together with the handle of its
  operating-system process; \<open>None\<close> is the \<open>nil\<close> command. Handles are numbered in the
  order of the spawns, and the process id is the handle.
\<close>

record Cmd =
  cmd_Path :: string
  cmd_Args :: "string list"

record ProcessManager =
  process :: "(Cmd \<times> nat) option"
  info :: ProcessInfo

text \<open>
  The operating system, as far as the managers see it: the number of processes spawned
  so far, and the handles that answer the signal 0.
\<close>

record os_world =
  spawned :: nat
  alive :: "nat set"

text \<open>
  What the operating system answers during one call. For the file system: whether
  \<open>os.Stat\<close> reports that a directory does not exist, the error of \<open>os.MkdirAll\<close> and the
  error of creating a log file. For a spawn: the error of \<open>cmd.Start\<close>, and whether the
  new process has gone after the settle delay of two seconds. For the stop of the process
  behind a handle: the error of the interrupt signal, the error of the kill that follows
  a failed interrupt, whether the process ends within the ten seconds, the error of
  \<open>Wait\<close> with the exit code of an \<open>ExitError\<close>, and the error of the kill after the
  timeout.
\<close>

record os_env =
  stat_not_exist :: "string \<Rightarrow> bool"
  mkdir_err :: "string \<Rightarrow> string option"
  logfile_err :: "string \<Rightarrow> string option"
  spawn_err :: "string option"
  exits_early :: bool
  interrupt_err :: "nat \<Rightarrow> string option"
  kill_err :: "nat \<Rightarrow> string option"
  exits_in_time :: "nat \<Rightarrow> bool"
  wait_err :: "nat \<Rightarrow> (string \<times> go_int option) option"
  timeout_kill_err :: "nat \<Rightarrow> string option"

definition NewProcessManager :: ProcessManager where
  "NewProcessManager =
     \<lparr> process = None,
       info = \<lparr> PID = 0, State = StateStopped, proc_StartTime = 0, ExitTime = None,
                ExitCode = None, proc_Error = [], CommandLine = [] \<rparr> \<rparr>"

definition isServerProcess :: "Cmd \<Rightarrow> bool" where
  "isServerProcess cmd = (''-l'' \<in> set (cmd_Args cmd))"

fun join_args :: "string list \<Rightarrow> string" where
  "join_args [] = []"
| "join_args [a] = a"
| "join_args (a # b # rest) = a @ '' '' @ join_args (b # rest)"

text \<open>
  \<open>Start\<close>. For a command without \<open>-l\<close> the source also starts the worker
  \<open>monitorProcess\<close>, which waits for the exit on its own; a listener has no such worker.
\<close>

definition Start ::
    "os_env \<Rightarrow> time \<Rightarrow> os_world \<Rightarrow> ProcessManager \<Rightarrow> Cmd
       \<Rightarrow> error option \<times> os_world \<times> ProcessManager" where
  "Start env now w pm cmd =
     (if process pm \<noteq> None \<and> State (info pm) = StateRunning
        then (Some ErrAlreadyRunning, w, pm)
      else
        (let info1 = \<lparr> PID = 0, State = StateStarting, proc_StartTime = now,
                        ExitTime = None, ExitCode = None, proc_Error = [],
                        CommandLine = cmd_Path cmd @ '' ['' @ join_args (cmd_Args cmd) @ '']'' \<rparr>
         in case spawn_err env of
              Some e \<Rightarrow>
                (Some (ErrProcessStartFailed e), w,
                 pm \<lparr> info := info1 \<lparr> State := StateError, proc_Error := e \<rparr> \<rparr>)
            | None \<Rightarrow>
                (let h = spawned w
                 in (None,
                     w \<lparr> spawned := Suc h, alive := insert h (alive w) \<rparr>,
                     pm \<lparr> process := Some (cmd, h),
                          info := info1 \<lparr> PID := of_nat h, State := StateRunning \<rparr> \<rparr>))))"

text \<open>
  \<open>Stop\<close>. \<open>now\<close> is the clock when the wait for the exit ends. A process whose exit
  has been waited for no longer answers signals.
\<close>

definition Stop ::
    "os_env \<Rightarrow> time \<Rightarrow> os_world \<Rightarrow> ProcessManager
       \<Rightarrow> error option \<times> os_world \<times> ProcessManager" where
  "Stop env now w pm =
     (case process pm of
        None \<Rightarrow> (Some ErrNotRunning, w, pm)
      | Some (cmd, h) \<Rightarrow>
          (if State (info pm) \<noteq> StateRunning then (Some ErrNotRunning, w, pm)
               else
                 (let stopping = (info pm) \<lparr> State := StateStopping \<rparr>
                  in case (interrupt_err env h, kill_err env h) of
                       (Some ie, Some ke) \<Rightarrow>
                         (Some (ErrKillFailed ke), w,
                          pm \<lparr> info := stopping \<lparr> State := StateError, proc_Error := ke \<rparr> \<rparr>)
                     | _ \<Rightarrow>
                         if exits_in_time env h then
                           (None, w \<lparr> alive := alive w - {h} \<rparr>,
                            pm \<lparr> process := None,
                                 info :=
                                   (case wait_err env h of
                                      Some (e, code) \<Rightarrow>
                                        stopping \<lparr> ExitTime := Some now, ExitCode := code,
                                                   State := StateError, proc_Error := e \<rparr>
                                    | None \<Rightarrow>
                                        stopping \<lparr> ExitTime := Some now,
                                                   State := StateStopped \<rparr>) \<rparr>)
                         else
                           (case timeout_kill_err env h of
                              Some ke \<Rightarrow>
                                (Some (ErrStopTimeout ke), w,
                                 pm \<lparr> info := stopping \<lparr> State := StateError,
                                                         proc_Error := ke \<rparr> \<rparr>)
                            | None \<Rightarrow>
                                (None, w \<lparr> alive := alive w - {h} \<rparr>,
                                 pm \<lparr> process := None,
                                      info := stopping \<lparr> ExitTime := Some now,
                                                         State := StateStopped \<rparr> \<rparr>)))))"

definition IsRunning :: "os_world \<Rightarrow> ProcessManager \<Rightarrow> bool" where
  "IsRunning w pm =
     (if State (info pm) \<noteq> StateRunning then False
      else case process pm of
             None \<Rightarrow> False
           | Some (cmd, h) \<Rightarrow>
               if ExitTime (info pm) \<noteq> None then False
               else h \<in> alive w)"


definition ensureDirectoryExists :: "os_env \<Rightarrow> string \<Rightarrow> error option" where
  "ensureDirectoryExists env dirPath =
     (if dirPath = [] \<or> dirPath = ''.'' then None
      else if stat_not_exist env dirPath then
        (case mkdir_err env dirPath of
           Some e \<Rightarrow> Some (ErrMkdirFailed dirPath e)
         | None \<Rightarrow> None)
      else None)"

definition mkdir_error_text :: "error \<Rightarrow> string" where
  "mkdir_error_text err =
     (case err of ErrMkdirFailed d e \<Rightarrow> ''create directory failed '' @ d @ '': '' @ e
      | _ \<Rightarrow> [])"

definition StartServer :: "os_env \<Rightarrow> string \<Rightarrow> TransferConfig \<Rightarrow> error + Cmd" where
  "StartServer env binPath config =
     (case ensureDirectoryExists env (Directory config) of
        Some e \<Rightarrow> Inl (ErrCreateWorkDir e)
      | None \<Rightarrow>
          (let cmd = \<lparr> cmd_Path = binPath, cmd_Args = binPath # buildServerArgs config \<rparr>
           in if LogFile config \<noteq> [] then
                (case logfile_err env (LogFile config) of
                   Some e \<Rightarrow> Inl (ErrCreateLogFile e)
                 | None \<Rightarrow> Inr cmd)
              else Inr cmd))"


section \<open>models: transfer tasks\<close>

record TransferTask =
  task_ID :: string
  task_Filename :: string
  task_SourcePath :: string
  task_TargetPath :: string
  task_Mode :: string
  task_Direction :: string
  task_ServerIP :: string
  task_Status :: string
  task_Progress :: rat
  task_BytesTransferred :: int64
  task_TotalBytes :: int64
  task_StartTime :: time
  task_EndTime :: "time option"
  task_Error :: string
  task_Message :: string
  task_CreatedAt :: time
  task_UpdatedAt :: time

record TransferResponse =
  resp_ID :: string
  resp_Status :: string
  resp_Message :: string
  resp_ClientCommand :: string
  resp_CreatedAt :: time

record TaskListResponse =
  Tasks :: "TransferTask list"
  Total :: go_int
  Page :: go_int
  Size :: go_int

text \<open>\<open>generateID\<close> prints the clock in nanoseconds after \<open>task_\<close>.\<close>

fun digits_of :: "nat \<Rightarrow> string" where
  "digits_of n =
     (if n < 10 then [char_of (48 + n)]
      else digits_of (n div 10) @ [char_of (48 + n mod 10)])"

definition Sprint_d :: "int \<Rightarrow> string" where
  "Sprint_d i = (if i < 0 then CHR ''-'' # digits_of (nat (- i)) else digits_of (nat i))"

definition generateID :: "time \<Rightarrow> string" where
  "generateID now = ''task_'' @ Sprint_d now"

definition NewTransferTaskWithServer ::
    "time \<Rightarrow> string \<Rightarrow> string \<Rightarrow> string \<Rightarrow> string \<Rightarrow> TransferTask" where
  "NewTransferTaskWithServer now filename mode direction serverIP =
     \<lparr> task_ID = generateID now, task_Filename = filename, task_SourcePath = [],
       task_TargetPath = [], task_Mode = mode, task_Direction = direction,
       task_ServerIP = serverIP, task_Status = StatusPending, task_Progress = 0,
       task_BytesTransferred = 0, task_TotalBytes = 0, task_StartTime = 0,
       task_EndTime = None, task_Error = [], task_Message = [],
       task_CreatedAt = now, task_UpdatedAt = now \<rparr>"

definition MarkStarted :: "time \<Rightarrow> TransferTask \<Rightarrow> TransferTask" where
  "MarkStarted now t =
     t \<lparr> task_Status := StatusStarting, task_StartTime := now, task_UpdatedAt := now \<rparr>"

definition MarkFailed :: "time \<Rightarrow> string \<Rightarrow> TransferTask \<Rightarrow> TransferTask" where
  "MarkFailed now errorMsg t =
     t \<lparr> task_Status := StatusFailed, task_Error := errorMsg, task_EndTime := Some now,
         task_UpdatedAt := now \<rparr>"

section \<open>transfer: the transfer service\<close>

text \<open>
  The task wrapper of the transfer package, and the service. The three maps of the
  service are association lists with one entry for a key: \<open>m[k] = v\<close> is
  \<open>AList.update\<close>, \<open>delete(m, k)\<close> is \<open>AList.delete\<close>, \<open>len(m)\<close> is \<open>length\<close>. The clock
  reads of one call are taken at the same instant \<open>now\<close>.
\<close>

record TaskWrapper =
  tw_Task :: TransferTask
  tw_Monitor :: TransferMonitor
  tw_Process :: ProcessManager
  tw_Config :: TransferConfig
  tw_Cancel :: bool

record TransferService =
  rtranfile :: string
  activeTasks :: "(string \<times> TaskWrapper) list"
  taskHistory :: "TransferTask list"
  maxConcurrent :: go_int
  transferInterval :: duration
  lastTransferTime :: time
  singleTransfer :: bool
  requireReconnect :: bool
  activeConnections :: "(string \<times> time) list"
  serverProcesses :: "(string \<times> ProcessManager) list"
  serverConfig :: "TransferSettings option"

definition NewTransferService :: "time \<Rightarrow> string \<Rightarrow> go_int \<Rightarrow> duration \<Rightarrow> TransferService" where
  "NewTransferService now rtranfilePath maxConcurrent_n transferInterval_d =
     \<lparr> rtranfile = rtranfilePath, activeTasks = [], taskHistory = [],
       maxConcurrent = maxConcurrent_n, transferInterval = transferInterval_d,
       lastTransferTime = now, singleTransfer = True, requireReconnect = True,
       activeConnections = [], serverProcesses = [], serverConfig = None \<rparr>"

definition GetActiveTransfers :: "TransferService \<Rightarrow> nat" where
  "GetActiveTransfers ts = length (activeTasks ts)"

definition getConnectionKeyWithConfig :: "TransferRequest \<Rightarrow> TransferSettings \<Rightarrow> string" where
  "getConnectionKeyWithConfig req settings = ''default_'' @ req_Direction req"

definition isConnectionActive :: "TransferService \<Rightarrow> time \<Rightarrow> string \<Rightarrow> bool" where
  "isConnectionActive ts now connectionKey =
     (case map_of (activeConnections ts) connectionKey of
        None \<Rightarrow> False
      | Some lastActive \<Rightarrow> now - lastActive < 10 * Second)"

definition checkTransferInterval :: "TransferService \<Rightarrow> error option" where
  "checkTransferInterval ts = None"

text \<open>
  \<open>startTransferTask\<close>. The message texts of the source are Chinese; here they are
  rendered in English.
\<close>

definition startTransferTask ::
    "os_env \<Rightarrow> time \<Rightarrow> TaskWrapper \<Rightarrow> error option \<times> TaskWrapper" where
  "startTransferTask env now taskWrapper =
     (let tw1 = taskWrapper \<lparr> tw_Cancel := True,
                               tw_Task := MarkStarted now (tw_Task taskWrapper) \<rparr>;
          dirErr = (if Direction (tw_Config tw1) = DirectionGet
                    then ensureDirectoryExists env (Directory (tw_Config tw1))
                    else None)
      in case dirErr of
           Some err \<Rightarrow>
             (Some err,
              tw1 \<lparr> tw_Task := MarkFailed now
                       (''create target directory failed: '' @ mkdir_error_text err)
                       (tw_Task tw1) \<rparr>)
         | None \<Rightarrow>
             (case StartMonitoring now (tw_Monitor tw1) of
                (Some err, tm) \<Rightarrow>
                  (Some err,
                   tw1 \<lparr> tw_Monitor := tm,
                         tw_Task := MarkFailed now
                           ''start monitoring failed: already monitoring'' (tw_Task tw1) \<rparr>)
              | (None, tm) \<Rightarrow>
                  (let tw2 = tw1 \<lparr> tw_Monitor := tm \<rparr>
                   in if Direction (tw_Config tw2) = DirectionPut
                         \<or> Direction (tw_Config tw2) = DirectionGet
                      then (Some ErrClientOnServer,
                            tw2 \<lparr> tw_Task := MarkFailed now
                              ''client transfer commands cannot run in server mode''
                              (tw_Task tw2) \<rparr>)
                      else (Some ErrListenerUnsupported,
                            tw2 \<lparr> tw_Task := MarkFailed now
                              ''server listening mode is not supported yet''
                              (tw_Task tw2) \<rparr>))))"

definition StartTransfer ::
    "os_env \<Rightarrow> time \<Rightarrow> string \<Rightarrow> TransferService \<Rightarrow> TransferRequest \<Rightarrow> TransferSettings
       \<Rightarrow> (error + TransferResponse) \<times> TransferService" where
  "StartTransfer env now stamp ts req settings =
     (if sint (maxConcurrent ts) \<le> int (length (activeTasks ts))
        then (Inl (ErrMaxConcurrent (maxConcurrent ts)), ts)
      else case checkTransferInterval ts of
        Some err \<Rightarrow> (Inl err, ts)
      | None \<Rightarrow>
      if singleTransfer ts \<and> requireReconnect ts
         \<and> isConnectionActive ts now (getConnectionKeyWithConfig req settings)
        then (Inl ErrReconnectRequired, ts)
      else
        (let task = NewTransferTaskWithServer now (req_Filename req) (req_Mode req)
                      (req_Direction req) []
         in case buildTransferConfig stamp req settings of
              Inl err \<Rightarrow> (Inl err, ts)
            | Inr transferConfig \<Rightarrow>
                (case ValidateConfig transferConfig of
                   Some err \<Rightarrow> (Inl (ErrConfigInvalid err), ts)
                 | None \<Rightarrow>
                     (let transferTask =
                            \<lparr> tw_Task = task,
                              tw_Monitor = NewTransferMonitor now (LogFile transferConfig),
                              tw_Process = NewProcessManager,
                              tw_Config = transferConfig, tw_Cancel = False \<rparr>
                      in case startTransferTask env now transferTask of
                           (Some err, tw) \<Rightarrow> (Inl err, ts)
                         | (None, tw) \<Rightarrow>
                             (let ts1 = ts \<lparr> activeTasks :=
                                              AList.update (task_ID (tw_Task tw)) tw
                                                (activeTasks ts),
                                            taskHistory := taskHistory ts @ [tw_Task tw] \<rparr>;
                                  ts2 = (if singleTransfer ts1
                                         then ts1 \<lparr> activeConnections :=
                                                AList.update
                                                  (getConnectionKeyWithConfig req settings)
                                                  now (activeConnections ts1) \<rparr>
                                         else ts1)
                              in (Inr \<lparr> resp_ID = task_ID (tw_Task tw),
                                        resp_Status = task_Status (tw_Task tw),
                                        resp_Message = ''transfer task started'',
                                        resp_ClientCommand = [],
                                        resp_CreatedAt = task_CreatedAt (tw_Task tw) \<rparr>,
                                  ts2))))))"

text \<open>A sequence of \<open>StartTransfer\<close> calls, each with its own surroundings.\<close>

type_synonym start_call = "os_env \<times> time \<times> string \<times> TransferRequest \<times> TransferSettings"

fun start_all :: "start_call list \<Rightarrow> TransferService \<Rightarrow> TransferService" where
  "start_all [] ts = ts"
| "start_all ((env, now, stamp, req, settings) # calls) ts =
     start_all calls (snd (StartTransfer env now stamp ts req settings))"

text \<open>
  \<open>ListTransfers\<close>. The program ends without an answer in three ways. \<open>make\<close> panics
  when its length is negative or when the elements, pointers of eight bytes, need more
  than \<open>maxAlloc\<close> bytes, which is \<open>2^48\<close> on a 64-bit Linux. The runtime ends the program
  when it cannot obtain the memory of a slice that \<open>make\<close> has accepted; the argument
  \<open>can_allocate\<close> says for which numbers of bytes it can. After \<open>make\<close>, the slice
  expression panics when its bounds are outside \<open>0 \<le> low \<le> high \<le> cap\<close>; here \<open>high\<close> has
  been cut down to the length of the history before.
\<close>

datatype panic = PanicMakeSliceLen | FatalOutOfMemory | PanicSliceBounds

definition maxAlloc :: int where "maxAlloc = 2 ^ 48"

definition PtrSize :: int where "PtrSize = 8"

definition ListTransfers ::
    "(nat \<Rightarrow> bool) \<Rightarrow> TransferService \<Rightarrow> go_int \<Rightarrow> go_int
       \<Rightarrow> (panic + TaskListResponse) \<times> TransferService" where
  "ListTransfers can_allocate ts page size_n =
     (let total = (word_of_nat (length (taskHistory ts)) :: go_int);
          start = (page - 1) * size_n;
          end0 = start + size_n
      in if sint total \<le> sint start then
           (Inr \<lparr> Tasks = [], Total = total, Page = page, Size = size_n \<rparr>, ts)
         else
           (let end_i = (if sint total < sint end0 then total else end0);
                len = sint (end_i - start)
            in if len < 0 \<or> maxAlloc < PtrSize * len then (Inl PanicMakeSliceLen, ts)
               else if 0 < len \<and> \<not> can_allocate (nat (PtrSize * len))
                 then (Inl FatalOutOfMemory, ts)
               else if \<not> (0 \<le> sint start \<and> sint start \<le> sint end_i)
                 then (Inl PanicSliceBounds, ts)
               else
                 (Inr \<lparr> Tasks = take (nat len) (drop (nat (sint start)) (taskHistory ts)),
                         Total = total, Page = page, Size = size_n \<rparr>, ts)))"

section \<open>transfer: the listener registry\<close>

text \<open>
  The loop of \<open>ensureServerProcessStarted\<close> over the registry: a listener of another
  mode that is running is stopped and leaves the registry, whether the stop succeeded
  or not. Go visits the entries of a map in no fixed order; the body touches the entry
  and its own process only.
\<close>

fun stopOtherModes ::
    "os_env \<Rightarrow> time \<Rightarrow> string \<Rightarrow> os_world \<Rightarrow> (string \<times> ProcessManager) list
       \<Rightarrow> (string \<times> ProcessManager) list \<times> os_world" where
  "stopOtherModes env now mode w [] = ([], w)"
| "stopOtherModes env now mode w ((modeName, processMgr) # rest) =
     (if modeName \<noteq> mode \<and> IsRunning w processMgr then
        (case Stop env now w processMgr of
           (err, w1, pm1) \<Rightarrow> stopOtherModes env now mode w1 rest)
      else
        (case stopOtherModes env now mode w rest of
           (rest1, w1) \<Rightarrow> ((modeName, processMgr) # rest1, w1)))"

definition ensureServerProcessStarted ::
    "os_env \<Rightarrow> time \<Rightarrow> TransferService \<times> os_world \<Rightarrow> TransferConfig
       \<Rightarrow> error option \<times> (TransferService \<times> os_world)" where
  "ensureServerProcessStarted env now s config =
     (let ts = fst s; w = snd s;
          found = map_of (serverProcesses ts) (Mode config)
      in if (case found of Some processMgr \<Rightarrow> IsRunning w processMgr | None \<Rightarrow> False)
           then (None, (ts, w))
         else
           (let reg1 = (if found \<noteq> None then AList.delete (Mode config) (serverProcesses ts)
                        else serverProcesses ts);
                (reg2, w2) = stopOtherModes env now (Mode config) w reg1;
                ts2 = ts \<lparr> serverProcesses := reg2 \<rparr>
            in case listenerConfig (serverConfig ts) config of
                 Inl err \<Rightarrow> (Some err, (ts2, w2))
               | Inr listener \<Rightarrow>
                   (case ValidateConfig listener of
                      Some err \<Rightarrow> (Some (ErrServerConfigInvalid err), (ts2, w2))
                    | None \<Rightarrow>
                        (case StartServer env (rtranfile ts) listener of
                           Inl err \<Rightarrow> (Some (ErrStartServerFailed err), (ts2, w2))
                         | Inr serverCmd \<Rightarrow>
                             (case Start env now w2 NewProcessManager serverCmd of
                                (Some err, w3, pm) \<Rightarrow>
                                  (Some (ErrManageServerFailed err), (ts2, w3))
                              | (None, w3, serverProcessMgr) \<Rightarrow>
                                  (let ts3 = ts2 \<lparr> serverProcesses :=
                                               AList.update (Mode config) serverProcessMgr
                                                 reg2 \<rparr>;
                                       w4 = (if exits_early env
                                             then w3 \<lparr> alive := alive w3 - {spawned w2} \<rparr>
                                             else w3)
                                   in if \<not> IsRunning w4 serverProcessMgr
                                        then (Some (ErrServerExitedEarly
                                                      (PID (info serverProcessMgr))),
                                              (ts3, w4))
                                      else (None, (ts3, w4))))))))"


datatype event = Ensure os_env time TransferConfig | ProcessExit nat

fun step :: "TransferService \<times> os_world \<Rightarrow> event \<Rightarrow> TransferService \<times> os_world" where
  "step s (Ensure env now config) = snd (ensureServerProcessStarted env now s config)"
| "step s (ProcessExit h) = (fst s, (snd s) \<lparr> alive := alive (snd s) - {h} \<rparr>)"

definition run :: "event list \<Rightarrow> TransferService \<times> os_world \<Rightarrow> TransferService \<times> os_world" where
  "run events s = foldl step s events"

definition initial_world :: os_world where
  "initial_world = \<lparr> spawned = 0, alive = {} \<rparr>"

section \<open>Example surroundings\<close>

text \<open>
  The settings the request handler falls back to, an operating system on which every
  call succeeds and every process ends at the first signal, one on which no directory
  exists or can be made, a client of the server at 10.0.0.1, and a service as
  \<open>NewTransferService\<close> makes it.
\<close>

definition example_settings :: TransferSettings where
  "example_settings =
     \<lparr> set_Device = ''mlx5_0'', set_BaseDir = ''/var/lib/rtrans'',
       TransferInterval = 5 * Second, MaxConcurrentTransfers = 1, set_ChunkSize = 4194304,
       Modes = \<lparr> Hugepages = \<lparr> Enabled = True, BaseDir = ''/dev/hugepages/dir'' \<rparr>,
                 Tmpfs = \<lparr> Enabled = True, BaseDir = ''/dev/shm/dir'' \<rparr>,
                 Filesystem = \<lparr> Enabled = True, BaseDir = ''/var/lib/rtrans/files'' \<rparr> \<rparr>,
       DefaultMode = [], set_ServerAddress = ''10.0.0.1'' \<rparr>"

definition quiet_env :: os_env where
  "quiet_env =
     \<lparr> stat_not_exist = (\<lambda>d. False), mkdir_err = (\<lambda>d. None), logfile_err = (\<lambda>p. None),
       spawn_err = None, exits_early = False, interrupt_err = (\<lambda>h. None),
       kill_err = (\<lambda>h. None), exits_in_time = (\<lambda>h. True), wait_err = (\<lambda>h. None),
       timeout_kill_err = (\<lambda>h. None) \<rparr>"

definition readonly_env :: os_env where
  "readonly_env = quiet_env \<lparr> stat_not_exist := (\<lambda>d. True),
                               mkdir_err := (\<lambda>d. Some ''read-only file system'') \<rparr>"

definition example_request :: "string \<Rightarrow> string \<Rightarrow> TransferRequest" where
  "example_request mode direction =
     \<lparr> req_Filename = ''/data/a.bin'', req_Mode = mode, req_Direction = direction,
       req_ServerIP = [] \<rparr>"

definition example_client :: ClientTransferService where
  "example_client =
     \<lparr> cts_serverURL = ''http://10.0.0.1:8080/api/v1'',
       cts_rtranfilePath = ''/usr/local/bin/rtranfile'',
       cts_config = Some example_settings \<rparr>"

definition example_service :: TransferService where
  "example_service = NewTransferService 0 ''/usr/local/bin/rtranfile'' 1 0"

definition used_service :: TransferService where
  "used_service = example_service \<lparr> activeConnections := [(''default_put'', 5 * Second)] \<rparr>"

definition example_task :: "time \<Rightarrow> TransferTask" where
  "example_task t = NewTransferTaskWithServer t ''a.bin'' ''tmpfs'' ''put'' []"

definition service_with_history :: "TransferTask list \<Rightarrow> TransferService" where
  "service_with_history h =
     (NewTransferService 0 ''/usr/local/bin/rtranfile'' 1 0) \<lparr> taskHistory := h \<rparr>"

text \<open>
  An operating system on which a process ignores the interrupt and cannot be killed, a
  listener command, the manager that has started it, the configuration that
  \<open>PrepareTransfer\<close> hands on for a mode, and the registry after a memory-backed listener
  has been started on a new service.
\<close>

definition stuck_env :: os_env where
  "stuck_env = quiet_env \<lparr> exits_in_time := (\<lambda>h. False),
                            timeout_kill_err := (\<lambda>h. Some ''operation not permitted'') \<rparr>"

definition example_cmd :: Cmd where
  "example_cmd = \<lparr> cmd_Path = ''/usr/local/bin/rtranfile'',
                   cmd_Args = [''/usr/local/bin/rtranfile'', ''-d'', ''mlx5_0'', ''-l'', ''0''] \<rparr>"

definition started_manager :: "os_world \<times> ProcessManager" where
  "started_manager = snd (Start quiet_env 0 initial_world NewProcessManager example_cmd)"









section \<open>Properties of the configuration validator\<close>

lemmas mode_defs = ModeHugepages_def ModeTmpfs_def ModeFilesystem_def
lemmas direction_defs = DirectionPut_def DirectionGet_def

text \<open>
  C5. \<open>ValidateConfig\<close> accepts a configuration exactly when device, directory and log
  file are non-empty, the mode is one of hugepages, tmpfs and filesystem, and the
  direction is either empty (listener role) or one of put and get with a non-empty peer
  address and a non-empty file name.
\<close>

theorem ValidateConfig_accepts_iff:
  "ValidateConfig config = None \<longleftrightarrow>
     Device config \<noteq> [] \<and> Directory config \<noteq> [] \<and> LogFile config \<noteq> [] \<and>
     Mode config \<in> {ModeHugepages, ModeTmpfs, ModeFilesystem} \<and>
     (if Direction config = [] then True
      else Direction config \<in> {DirectionPut, DirectionGet} \<and>
           ServerAddress config \<noteq> [] \<and> Filename config \<noteq> [])"
  by (simp add: ValidateConfig_def)

theorem ValidateConfig_accepts_iff_witness:
  "ValidateConfig \<lparr> Device = ''mlx5_0'', Directory = ''/dev/shm/dir'', Mode = ''tmpfs'',
       Direction = ''put'', Filename = ''a.bin'', ServerAddress = ''10.0.0.1'',
       ChunkSize = 4096, LogFile = ''/var/log/rtrans/x.log'',
       NoHuge = False, MMan = True \<rparr> = None
   \<and> ValidateConfig \<lparr> Device = ''mlx5_0'', Directory = ''/dev/shm/dir'', Mode = ''tmpfs'',
       Direction = ''put'', Filename = '''', ServerAddress = ''10.0.0.1'',
       ChunkSize = 4096, LogFile = ''/var/log/rtrans/x.log'',
       NoHuge = False, MMan = True \<rparr> \<noteq> None"
  using ValidateConfig_accepts_iff
    [of "\<lparr> Device = ''mlx5_0'', Directory = ''/dev/shm/dir'', Mode = ''tmpfs'',
       Direction = ''put'', Filename = ''a.bin'', ServerAddress = ''10.0.0.1'',
       ChunkSize = 4096, LogFile = ''/var/log/rtrans/x.log'',
       NoHuge = False, MMan = True \<rparr>"]
    ValidateConfig_accepts_iff
    [of "\<lparr> Device = ''mlx5_0'', Directory = ''/dev/shm/dir'', Mode = ''tmpfs'',
       Direction = ''put'', Filename = '''', ServerAddress = ''10.0.0.1'',
       ChunkSize = 4096, LogFile = ''/var/log/rtrans/x.log'',
       NoHuge = False, MMan = True \<rparr>"]
  by (simp add: mode_defs direction_defs)

section \<open>Properties of the log parser\<close>

lemma to_lower_cases:
  assumes "to_lower x = c" and "is_lower c"
  shows "x = c \<or> x = to_upper c"
proof (cases "is_upper x")
  case False
  with assms(1) show ?thesis by (simp add: to_lower_def)
next
  case True
  then have c: "c = char_of (of_char x + 32 :: nat)" using assms(1) by (simp add: to_lower_def)
  have "(of_char c :: nat) = of_char x + 32"
    using True by (simp add: c is_upper_def)
  then have "to_upper c = char_of (of_char x :: nat)"
    using assms(2) by (simp add: to_upper_def)
  then show ?thesis by simp
qed

lemma to_upper_neq: "is_lower c \<Longrightarrow> to_upper c \<noteq> c"
proof
  assume l: "is_lower c" and e: "to_upper c = c"
  have "(of_char c :: nat) - 32 < 256"
    using nat_of_char_less_256 [of c] by arith
  then have "(of_char (to_upper c) :: nat) = of_char c - 32"
    using l by (simp add: to_upper_def)
  moreover have "(of_char c :: nat) - 32 < of_char c"
    using l unfolding is_lower_def by arith
  ultimately show False using e by simp
qed

lemma lit_forms_plain:
  assumes "is_lower c" and "c \<noteq> CHR ''k''" and "c \<noteq> CHR ''s''"
  shows "lit_forms c = [[c], [to_upper c]]"
proof -
  have "\<not> is_upper c" using assms(1) by (simp add: is_lower_def is_upper_def)
  then have "to_lower c = c" by (simp add: to_lower_def)
  then show ?thesis using assms to_upper_neq [of c] by (auto simp: lit_forms_def Let_def)
qed

lemma rmatch_Lit_ci:
  assumes "is_lower c" and "c \<noteq> CHR ''k''" and "c \<noteq> CHR ''s''" and "to_lower x = c"
  shows "rmatch (Lit c) (x # s) caps = [(s, caps)]"
proof -
  have "x = c \<or> x = to_upper c" using assms(1,4) to_lower_cases by blast
  then show ?thesis
    using to_upper_neq [OF assms(1)]
    by (auto simp: rmatch.simps lit_forms_plain [OF assms(1-3)])
qed

definition plain_letter :: "char \<Rightarrow> bool" where
  "plain_letter c \<longleftrightarrow> is_lower c \<and> c \<noteq> CHR ''k'' \<and> c \<noteq> CHR ''s''"

lemma rmatch_lits_ci:
  "list_all plain_letter w \<Longrightarrow> map to_lower (take (length w) s) = w
     \<Longrightarrow> rmatch (lits w) s caps = [(drop (length w) s, caps)]"
proof (induction w arbitrary: s)
  case Nil
  then show ?case by (simp add: lits_def rmatch.simps)
next
  case (Cons c w)
  from Cons.prems(2) obtain x s' where s: "s = x # s'" by (cases s) auto
  with Cons.prems have x: "to_lower x = c" and rest: "map to_lower (take (length w) s') = w"
    by auto
  from Cons.prems(1) have pc: "plain_letter c" and w: "list_all plain_letter w"
    by simp_all
  from pc have c: "is_lower c" "c \<noteq> CHR ''k''" "c \<noteq> CHR ''s''"
    by (simp_all add: plain_letter_def)
  have "rmatch (lits (c # w)) s caps = rmatch (Seq (Lit c) (lits w)) (x # s') caps"
    by (simp add: lits_def s)
  also have "\<dots> = rmatch (lits w) s' caps"
    by (simp add: rmatch.simps(6) rmatch_Lit_ci [OF c x])
  also have "\<dots> = [(drop (length w) s', caps)]"
    by (rule Cons.IH [OF w rest])
  finally show ?case by (simp add: s)
qed

text \<open>The predicate \<open>has_word_ci\<close> says that the word occurs in the line, in any letter case.\<close>

lemma has_word_ci_iff:
  "has_word_ci w line \<longleftrightarrow> (\<exists>pre x post. line = pre @ x @ post \<and> map to_lower x = w)"
proof
  assume "has_word_ci w line"
  then show "\<exists>pre x post. line = pre @ x @ post \<and> map to_lower x = w"
  proof (induction line)
    case Nil
    then show ?case by simp
  next
    case (Cons c cs)
    show ?case
    proof (cases "map to_lower (take (length w) (c # cs)) = w")
      case True
      have "c # cs = [] @ take (length w) (c # cs) @ drop (length w) (c # cs)" by simp
      with True show ?thesis by blast
    next
      case False
      with Cons.prems have "has_word_ci w cs" by simp
      from Cons.IH [OF this] obtain pre x post
        where "cs = pre @ x @ post" "map to_lower x = w" by blast
      then have "c # cs = (c # pre) @ x @ post \<and> map to_lower x = w" by simp
      then show ?thesis by blast
    qed
  qed
next
  assume "\<exists>pre x post. line = pre @ x @ post \<and> map to_lower x = w"
  then obtain pre x post where l: "line = pre @ x @ post" and x: "map to_lower x = w"
    by blast
  have len: "length x = length w" using x by auto
  have "has_word_ci w (pre @ x @ post)"
  proof (induction pre)
    case Nil
    show ?case
    proof (cases "x @ post")
      case Nil
      with x show ?thesis by simp
    next
      case (Cons c cs)
      have "map to_lower (take (length w) (x @ post)) = w" using x len by simp
      then show ?thesis using Cons by (simp del: take_append)
    qed
  next
    case (Cons p ps)
    then show ?case by simp
  qed
  then show "has_word_ci w line" by (simp add: l)
qed

lemma FindStringSubmatch_here:
  "rmatch r s [] \<noteq> [] \<Longrightarrow> FindStringSubmatch r s \<noteq> None"
  by (cases s; cases "rmatch r s []") (auto simp: FindStringSubmatch.simps)

lemma FindStringSubmatch_later:
  "FindStringSubmatch r s \<noteq> None \<Longrightarrow> FindStringSubmatch r (x # s) \<noteq> None"
  by (cases "rmatch r (x # s) []") (auto simp: FindStringSubmatch.simps)

lemma errorRegex_word:
  assumes "w \<in> {''error'', ''failed'', ''failure'', ''exception''}"
    and "map to_lower (take (length w) s) = w"
  shows "rmatch errorRegex s [] \<noteq> []"
proof -
  have "list_all plain_letter w"
    using assms(1) by (auto simp: plain_letter_def is_lower_def)
  then have "rmatch (lits w) s [] \<noteq> []"
    using rmatch_lits_ci [OF _ assms(2)] by simp
  then show ?thesis
    using assms(1) by (auto simp: errorRegex_def alts_def rmatch.simps)
qed

lemma MatchString_errorRegex:
  assumes "w \<in> {''error'', ''failed'', ''failure'', ''exception''}"
  shows "has_word_ci w line \<Longrightarrow> MatchString errorRegex line"
proof (induction line)
  case Nil
  with assms show ?case by auto
next
  case (Cons c cs)
  show ?case
  proof (cases "map to_lower (take (length w) (c # cs)) = w")
    case True
    then show ?thesis
      unfolding MatchString_def
      by (intro FindStringSubmatch_here errorRegex_word [OF assms])
  next
    case False
    with Cons.prems have "has_word_ci w cs" by simp
    then have "FindStringSubmatch errorRegex cs \<noteq> None"
      using Cons.IH by (simp add: MatchString_def)
    then show ?thesis
      unfolding MatchString_def by (rule FindStringSubmatch_later)
  qed
qed





























lemma progressRegex_eq:
  "progressRegex =
     Seq (lits ''transferred'') (Seq (Many1 cls_s) (Seq (Grp 1 (Many1 cls_d))
     (Seq (Many0 cls_s) (Seq (Grp 2 unitRe) (Seq (Many1 cls_s) (Seq (lits ''of'')
     (Seq (Many1 cls_s) (Seq (Grp 3 (Many1 cls_d)) (Seq (Many0 cls_s) (Seq (Grp 4 unitRe)
     (Seq (Many0 cls_s) (Seq (Lit CHR ''('') (Seq (Grp 5 (Many1 (cls_d @ ''.'')))
     (Seq (Lit CHR ''%'') (Seq (Lit CHR '')'') Eps)))))))))))))))"
  by (simp add: progressRegex_def seqs_def)










text \<open>A prefix without the letter t holds no match of the progress pattern.\<close>

lemma progressRegex_needs_t:
  assumes "to_lower x \<noteq> CHR ''t''"
  shows "rmatch progressRegex (x # s) [] = []"
proof -
  have T: "char_of (84 :: nat) = CHR ''T''" by (simp add: char_of_eq_iff)
  have forms: "lit_forms CHR ''t'' = [''t'', ''T'']"
    by (simp add: lit_forms_def to_lower_def to_upper_def is_upper_def is_lower_def Let_def T)
  have "to_lower CHR ''T'' = CHR ''t''" "to_lower CHR ''t'' = CHR ''t''"
    by (simp_all add: to_lower_def is_upper_def char_of_eq_iff)
  then have "x \<noteq> CHR ''t''" "x \<noteq> CHR ''T''" using assms by auto
  then have "rmatch (Lit CHR ''t'') (x # s) [] = []"
    by (simp add: rmatch.simps(2) forms)
  then show ?thesis by (simp add: progressRegex_eq lits_def rmatch.simps(6))
qed

lemma no_match_within_no_t:
  "list_all (\<lambda>c. to_lower c \<noteq> CHR ''t'') pre \<Longrightarrow> no_match_within progressRegex pre s"
  by (induction pre) (simp_all add: progressRegex_needs_t)









text \<open>While the product fits 63 bits it is the product of the numbers.\<close>

lemma convertToBytes_exact:
  assumes "0 \<le> sint v"
  shows "sint v < 2 ^ 53 \<Longrightarrow> sint (convertToBytes v ''KB'') = sint v * 1024"
    and "sint v < 2 ^ 43 \<Longrightarrow> sint (convertToBytes v ''MB'') = sint v * (1024 * 1024)"
    and "sint v < 2 ^ 33 \<Longrightarrow> sint (convertToBytes v ''GB'') = sint v * (1024 * 1024 * 1024)"
proof -
  have u: "strings_ToUpper ''KB'' = ''KB''" "strings_ToUpper ''MB'' = ''MB''"
    "strings_ToUpper ''GB'' = ''GB''"
    by (simp_all add: strings_ToUpper_def to_upper_def is_lower_def)
  have m: "\<And>k::int. - (2 ^ 63) \<le> sint v * k \<Longrightarrow> sint v * k < 2 ^ 63
             \<Longrightarrow> signed_take_bit (63::nat) (sint v * k) = sint v * k"
    by (rule signed_take_bit_int_eq_self)
  show "sint v < 2 ^ 53 \<Longrightarrow> sint (convertToBytes v ''KB'') = sint v * 1024"
    using assms m [of 1024]
    by (simp add: convertToBytes_def u sint_word_mult)
  show "sint v < 2 ^ 43 \<Longrightarrow> sint (convertToBytes v ''MB'') = sint v * (1024 * 1024)"
    using assms m [of "1024 * 1024"]
    by (simp add: convertToBytes_def u sint_word_mult mult.assoc)
  show "sint v < 2 ^ 33 \<Longrightarrow> sint (convertToBytes v ''GB'') = sint v * (1024 * 1024 * 1024)"
    using assms m [of "1024 * 1024 * 1024"]
    by (simp add: convertToBytes_def u sint_word_mult mult.assoc)
qed

text \<open>
  C7. A line that contains error, failed, failure or exception in any letter case is
  classified as failed, with the trimmed line as error text and every other field at
  its zero value, whatever else the line contains: the completion and progress patterns
  are not consulted.
\<close>

theorem ParseLine_error_first:
  assumes "has_word_ci ''error'' line \<or> has_word_ci ''failed'' line
           \<or> has_word_ci ''failure'' line \<or> has_word_ci ''exception'' line"
  shows "ParseLine now line =
           Inr (Some \<lparr> Status = StatusFailed, BytesTransferred = 0, TotalBytes = 0,
                        ProgressPercent = 0, TransferRate = 0, ElapsedTime = 0,
                        EstimatedTime = 0, StartTime = 0, LastUpdateTime = now,
                        Error = strings_TrimSpace line \<rparr>)"
proof -
  have "MatchString errorRegex line"
    using assms MatchString_errorRegex [of _ line] by blast
  then show ?thesis by (simp add: ParseLine_def)
qed

theorem ParseLine_error_first_witness:
  "has_word_ci ''error'' ''  Transferred 1 MB of 2 MB (50%) completed with ERROR: disk full ''
   \<and> MatchString completeRegex
        ''  Transferred 1 MB of 2 MB (50%) completed with ERROR: disk full ''
   \<and> FindStringSubmatch progressRegex
        ''  Transferred 1 MB of 2 MB (50%) completed with ERROR: disk full '' \<noteq> None
   \<and> ParseLine 7 ''  Transferred 1 MB of 2 MB (50%) completed with ERROR: disk full '' =
        Inr (Some \<lparr> Status = ''failed'', BytesTransferred = 0, TotalBytes = 0,
                     ProgressPercent = 0, TransferRate = 0, ElapsedTime = 0,
                     EstimatedTime = 0, StartTime = 0, LastUpdateTime = 7,
                     Error = ''Transferred 1 MB of 2 MB (50%) completed with ERROR: disk full'' \<rparr>)"
proof -
  have h: "has_word_ci ''error''
             ''  Transferred 1 MB of 2 MB (50%) completed with ERROR: disk full ''"
    by code_simp
  have c: "MatchString completeRegex
             ''  Transferred 1 MB of 2 MB (50%) completed with ERROR: disk full ''"
    by code_simp
  have p: "FindStringSubmatch progressRegex
             ''  Transferred 1 MB of 2 MB (50%) completed with ERROR: disk full '' \<noteq> None"
    by code_simp
  have t: "strings_TrimSpace
             ''  Transferred 1 MB of 2 MB (50%) completed with ERROR: disk full ''
           = ''Transferred 1 MB of 2 MB (50%) completed with ERROR: disk full''"
    by code_simp
  have r: "ParseLine 7 ''  Transferred 1 MB of 2 MB (50%) completed with ERROR: disk full '' =
        Inr (Some \<lparr> Status = ''failed'', BytesTransferred = 0, TotalBytes = 0,
                     ProgressPercent = 0, TransferRate = 0, ElapsedTime = 0,
                     EstimatedTime = 0, StartTime = 0, LastUpdateTime = 7,
                     Error = ''Transferred 1 MB of 2 MB (50%) completed with ERROR: disk full'' \<rparr>)"
    using ParseLine_error_first [OF disjI1 [OF h], of 7] by (simp add: t StatusFailed_def)
  show ?thesis
    by (rule conjI [OF h conjI [OF c conjI [OF p r]]])
qed

section \<open>Properties of the command line\<close>

lemma addModeSpecificArgs_by_mode:
  "Mode config = ModeHugepages \<Longrightarrow>
     addModeSpecificArgs args config = args @ [''--nohuge'', ''--mman'']"
  "Mode config = ModeTmpfs \<Longrightarrow>
     addModeSpecificArgs args config = args @ [''--nohuge'', ''--mman'']"
  "Mode config = ModeFilesystem \<Longrightarrow> Direction config = [] \<Longrightarrow>
     addModeSpecificArgs args config = args @ [''--nohuge'']"
  "Mode config = ModeFilesystem \<Longrightarrow> Direction config \<noteq> [] \<Longrightarrow>
     addModeSpecificArgs args config =
       args @ (if NoHuge config then [''--nohuge''] else [])
            @ (if MMan config then [''--mman''] else [])"
  by (simp_all add: addModeSpecificArgs_def mode_defs)

text \<open>
  C1 on the code. For the large-page mode the listener configuration has both flags
  false, and its argument list carries \<open>--nohuge\<close> and \<open>--mman\<close>; for the memory-backed
  mode the transfer configuration, as the service and as the client build it, has
  disable-large-pages false, and its argument list carries \<open>--nohuge\<close>.
\<close>

theorem mode_flags_ignored_in_args:
  "map_sum id (\<lambda>c. (NoHuge c, MMan c, buildServerArgs c))
     (listenerConfig (Some example_settings)
        \<lparr> Device = ''mlx5_0'', Directory = ''/dev/hugepages/dir'', Mode = ''hugepages'',
          Direction = ''put'', Filename = ''a.bin'', ServerAddress = ''10.0.0.1'',
          ChunkSize = 4194304, LogFile = ''/var/log/rtrans/rtrans_put_20240101_000000.log'',
          NoHuge = True, MMan = True \<rparr>)
     = Inr (False, False,
            [''-d'', ''mlx5_0'', ''--dir'', ''/dev/hugepages/dir'', ''-l'', ''0'', ''--logfile'',
             ''/var/log/rtrans/rtranfile_server_hugepages.log'', ''--nohuge'', ''--mman''])
   \<and> map_sum id (\<lambda>c. (NoHuge c, MMan c, buildClientArgs c))
       (buildTransferConfig ''20240101_000000'' (example_request ''tmpfs'' ''put'')
          example_settings)
     = Inr (False, True,
            [''-d'', ''mlx5_0'', ''-c'', ''10.0.0.1'', ''--dir'', ''/dev/shm/dir'', ''--logfile'',
             ''/var/log/rtrans/rtrans_put_20240101_000000.log'', ''-m'', ''4096'',
             ''--nohuge'', ''--mman'', ''--put'', ''a.bin''])
   \<and> map_sum id (\<lambda>c. (NoHuge c, MMan c, buildClientArgs c))
       (client_buildTransferConfig ''20240101_000000'' example_client
          (example_request ''tmpfs'' ''put''))
     = Inr (False, True,
            [''-d'', ''mlx5_0'', ''-c'', ''10.0.0.1'', ''--dir'', ''/data'', ''--logfile'',
             ''/var/log/rtrans/client_put_20240101_000000.log'', ''-m'', ''4096'',
             ''--nohuge'', ''--mman'', ''--put'', ''a.bin''])"
  by (simp add: listenerConfig_def buildServerArgs_def addModeSpecificArgs_def
        buildTransferConfig_def buildClientArgs_def filepath_Base_def getFileName_def
        getFileDirectory_def transferLogFile_def example_settings_def example_request_def
        client_buildTransferConfig_def example_client_def strings_Index_colon_def
        mode_defs direction_defs Let_def)

section \<open>Properties of the transfer monitor\<close>

text \<open>
  C4 on the code: with a log file that appears 200 ms after the worker has started, the
  worker looks once, sleeps once, fails to open the file and records the status failed.
\<close>

theorem monitorLogFile_late_file_fails:
  "monitorLogFile late_log_env
     (snd (StartMonitoring 0 (NewTransferMonitor 0 ''/var/log/rtrans/rtrans_put_x.log'')))
   = (None,
      \<lparr> progress = \<lparr> Status = StatusFailed, BytesTransferred = 0, TotalBytes = 0,
                      ProgressPercent = 0, TransferRate = 0, ElapsedTime = 0,
                      EstimatedTime = 0, StartTime = 0, LastUpdateTime = 0,
                      Error = ''open log file failed: no such file or directory'' \<rparr>,
       logFile = ''/var/log/rtrans/rtrans_put_x.log'', stopChan_closed = False,
       isMonitoring = True \<rparr>)"
  by (simp add: monitorLogFile_def waitForLogFile_def late_log_env_def StartMonitoring_def
        NewTransferMonitor_def)

text \<open>The worker never reads the log file later than 100 ms after its start.\<close>

lemma monitorLogFile_scans_by_tick_1:
  "fst (monitorLogFile env tm) = Some t \<Longrightarrow> t \<le> 1"
  by (auto simp: monitorLogFile_def waitForLogFile_def split: option.splits if_splits)

section \<open>Properties of the start operation\<close>

lemma startTransferTask_fails:
  "fst (startTransferTask env now tw) \<noteq> None"
  by (auto simp: startTransferTask_def Let_def StartMonitoring_def split: option.splits prod.splits if_splits)

lemma startTransferTask_marks_failed:
  "task_Status (tw_Task (snd (startTransferTask env now tw))) = StatusFailed"
  by (auto simp: startTransferTask_def Let_def StartMonitoring_def MarkFailed_def split: option.splits prod.splits if_splits)

lemma startTransferTask_error:
  "\<not> isMonitoring (tw_Monitor tw) \<Longrightarrow>
   fst (startTransferTask env now tw) =
     (if Direction (tw_Config tw) = DirectionGet
         \<and> ensureDirectoryExists env (Directory (tw_Config tw)) \<noteq> None
      then ensureDirectoryExists env (Directory (tw_Config tw))
      else if Direction (tw_Config tw) = DirectionPut \<or> Direction (tw_Config tw) = DirectionGet
      then Some ErrClientOnServer
      else Some ErrListenerUnsupported)"
  by (auto simp: startTransferTask_def Let_def StartMonitoring_def split: option.splits prod.splits if_splits)

lemma startTransferTask_case:
  "(case startTransferTask env now tw of (None, x) \<Rightarrow> A x | (Some err, x) \<Rightarrow> B err x)
     = B (the (fst (startTransferTask env now tw))) (snd (startTransferTask env now tw))"
  using startTransferTask_fails [of env now tw]
  by (cases "startTransferTask env now tw") auto

lemma StartTransfer_unchanged:
  "\<exists>err. StartTransfer env now stamp ts req settings = (Inl err, ts)"
  by (simp add: StartTransfer_def Let_def checkTransferInterval_def startTransferTask_case
        split: option.splits sum.splits)

lemma snd_StartTransfer: "snd (StartTransfer env now stamp ts req settings) = ts"
  using StartTransfer_unchanged [of env now stamp ts req settings] by auto

lemma start_all_unchanged: "start_all calls ts = ts"
proof (induction calls arbitrary: ts)
  case Nil
  show ?case by simp
next
  case (Cons c calls)
  obtain env now stamp req settings where c: "c = (env, now, stamp, req, settings)"
    by (cases c) auto
  obtain err where "StartTransfer env now stamp ts req settings = (Inl err, ts)"
    using StartTransfer_unchanged by blast
  then show ?case using Cons.IH by (simp add: c)
qed


lemmas example_defs = example_settings_def quiet_env_def readonly_env_def example_request_def
  example_service_def used_service_def NewTransferService_def

lemmas start_defs = StartTransfer_def checkTransferInterval_def isConnectionActive_def
  getConnectionKeyWithConfig_def buildTransferConfig_def ValidateConfig_def
  startTransferTask_def StartMonitoring_def NewTransferMonitor_def ensureDirectoryExists_def
  transferLogFile_def mode_defs direction_defs Second_def getFileName_def
  getFileDirectory_def

text \<open>
  C2, as stated, fails for a download whose target directory cannot be made:
  \<open>startTransferTask\<close> returns the error of \<open>ensureDirectoryExists\<close>, not the error
  about client transfers on the server.
\<close>

theorem StartTransfer_get_mkdir_counterexample:
  "fst (StartTransfer readonly_env 0 ''20240101_000000'' example_service
          (example_request ''tmpfs'' ''get'') example_settings)
     = Inl (ErrMkdirFailed ''/dev/shm/dir'' ''read-only file system'')"
  by (simp add: example_defs start_defs Let_def)

text \<open>
  C2, amended. \<open>startTransferTask\<close> returns an error and leaves the task failed, for
  every wrapper. For a wrapper with a fresh monitor the error is: for get, the error of
  creating the target directory when that fails; otherwise, for put and get, the error
  about client transfers on the server; for every other direction, the error about the
  unsupported listener mode. So \<open>StartTransfer\<close> returns an error and leaves the service
  as it was, and after any sequence of starts on a new service there is no active task
  and no recorded connection.
\<close>

theorem StartTransfer_never_starts:
  "(\<exists>err. fst (startTransferTask env now tw) = Some err)
   \<and> task_Status (tw_Task (snd (startTransferTask env now tw))) = StatusFailed
   \<and> (\<not> isMonitoring (tw_Monitor tw) \<longrightarrow>
        fst (startTransferTask env now tw) =
          (if Direction (tw_Config tw) = DirectionGet
              \<and> ensureDirectoryExists env (Directory (tw_Config tw)) \<noteq> None
           then ensureDirectoryExists env (Directory (tw_Config tw))
           else if Direction (tw_Config tw) = DirectionPut
                   \<or> Direction (tw_Config tw) = DirectionGet
           then Some ErrClientOnServer
           else Some ErrListenerUnsupported))
   \<and> (\<exists>err. StartTransfer env now stamp ts req settings = (Inl err, ts))
   \<and> activeTasks (start_all calls (NewTransferService t0 path m d)) = []
   \<and> GetActiveTransfers (start_all calls (NewTransferService t0 path m d)) = 0
   \<and> activeConnections (start_all calls (NewTransferService t0 path m d)) = []"
proof -
  have a: "\<exists>err. fst (startTransferTask env now tw) = Some err"
    using startTransferTask_fails [of env now tw] by auto
  have b: "activeTasks (start_all calls (NewTransferService t0 path m d)) = []"
    "GetActiveTransfers (start_all calls (NewTransferService t0 path m d)) = 0"
    "activeConnections (start_all calls (NewTransferService t0 path m d)) = []"
    by (simp_all add: start_all_unchanged GetActiveTransfers_def NewTransferService_def)
  show ?thesis
    using a b startTransferTask_marks_failed [of env now tw]
      startTransferTask_error [of tw env now]
      StartTransfer_unchanged [of env now stamp ts req settings]
    by blast
qed

theorem StartTransfer_never_starts_witness:
  "\<not> isMonitoring (tw_Monitor
        \<lparr> tw_Task = NewTransferTaskWithServer 0 ''a.bin'' ''tmpfs'' ''put'' [],
          tw_Monitor = NewTransferMonitor 0 ''/var/log/rtrans/x.log'',
          tw_Process = NewProcessManager,
          tw_Config = \<lparr> Device = ''mlx5_0'', Directory = ''/dev/shm/dir'', Mode = ''tmpfs'',
                         Direction = ''put'', Filename = ''a.bin'',
                         ServerAddress = ''10.0.0.1'', ChunkSize = 4096,
                         LogFile = ''/var/log/rtrans/x.log'', NoHuge = False, MMan = True \<rparr>,
          tw_Cancel = False \<rparr>)
   \<and> fst (startTransferTask quiet_env 0
        \<lparr> tw_Task = NewTransferTaskWithServer 0 ''a.bin'' ''tmpfs'' ''put'' [],
          tw_Monitor = NewTransferMonitor 0 ''/var/log/rtrans/x.log'',
          tw_Process = NewProcessManager,
          tw_Config = \<lparr> Device = ''mlx5_0'', Directory = ''/dev/shm/dir'', Mode = ''tmpfs'',
                         Direction = ''put'', Filename = ''a.bin'',
                         ServerAddress = ''10.0.0.1'', ChunkSize = 4096,
                         LogFile = ''/var/log/rtrans/x.log'', NoHuge = False, MMan = True \<rparr>,
          tw_Cancel = False \<rparr>) = Some ErrClientOnServer
   \<and> GetActiveTransfers
        (start_all [(quiet_env, 0, ''20240101_000000'', example_request ''tmpfs'' ''put'',
                     example_settings),
                    (quiet_env, Second, ''20240101_000001'', example_request ''tmpfs'' ''get'',
                     example_settings)]
           (NewTransferService 0 ''/usr/local/bin/rtranfile'' 1 0)) = 0"
  using StartTransfer_never_starts
    [of quiet_env 0
        "\<lparr> tw_Task = NewTransferTaskWithServer 0 ''a.bin'' ''tmpfs'' ''put'' [],
          tw_Monitor = NewTransferMonitor 0 ''/var/log/rtrans/x.log'',
          tw_Process = NewProcessManager,
          tw_Config = \<lparr> Device = ''mlx5_0'', Directory = ''/dev/shm/dir'', Mode = ''tmpfs'',
                         Direction = ''put'', Filename = ''a.bin'',
                         ServerAddress = ''10.0.0.1'', ChunkSize = 4096,
                         LogFile = ''/var/log/rtrans/x.log'', NoHuge = False, MMan = True \<rparr>,
          tw_Cancel = False \<rparr>"
        "''s''" example_service "example_request ''tmpfs'' ''put''" example_settings
        "[(quiet_env, 0, ''20240101_000000'', example_request ''tmpfs'' ''put'',
                     example_settings),
                    (quiet_env, Second, ''20240101_000001'', example_request ''tmpfs'' ''get'',
                     example_settings)]" 0 "''/usr/local/bin/rtranfile''" 1 0]
  by (simp add: NewTransferMonitor_def direction_defs)

text \<open>
  C3, as stated, fails: the first start records nothing, so a second start for the same
  direction one second later is not rejected by the admission check but by the hand-off
  step, and so is a start after the window.
\<close>

theorem single_flight_counterexample:
  "fst (StartTransfer quiet_env Second ''20240101_000001''
          (snd (StartTransfer quiet_env 0 ''20240101_000000'' example_service
                  (example_request ''tmpfs'' ''put'') example_settings))
          (example_request ''tmpfs'' ''put'') example_settings)
     = Inl ErrClientOnServer
   \<and> fst (StartTransfer quiet_env (11 * Second) ''20240101_000011''
          (snd (StartTransfer quiet_env 0 ''20240101_000000'' example_service
                  (example_request ''tmpfs'' ''put'') example_settings))
          (example_request ''tmpfs'' ''put'') example_settings)
     = Inl ErrClientOnServer"
  unfolding snd_StartTransfer
  by (simp add: example_defs start_defs Let_def)

lemma startTransferTask_not_admission:
  "fst (startTransferTask env now tw) \<noteq> Some ErrReconnectRequired"
  by (auto simp: startTransferTask_def Let_def StartMonitoring_def ensureDirectoryExists_def
        split: option.splits prod.splits if_splits)

lemma startTransferTask_the_not_admission:
  "the (fst (startTransferTask env now tw)) \<noteq> ErrReconnectRequired"
  using startTransferTask_not_admission [of env now tw] startTransferTask_fails [of env now tw]
  by auto

lemma buildTransferConfig_not_admission:
  "buildTransferConfig stamp req settings \<noteq> Inl ErrReconnectRequired"
  by (auto simp: buildTransferConfig_def Let_def split: sum.splits if_splits)

text \<open>
  C3, amended. With single-flight mode and the reconnect requirement on, and the
  concurrency limit not reached, a start is rejected with the admission error exactly
  when the connection key of its direction has a time stamp less than 10 seconds old;
  the key is the marker \<open>default_\<close> followed by the direction.
\<close>

theorem single_flight_admission:
  assumes "int (length (activeTasks ts)) < sint (maxConcurrent ts)"
    and "singleTransfer ts" and "requireReconnect ts"
  shows "getConnectionKeyWithConfig req settings = ''default_'' @ req_Direction req
     \<and> (fst (StartTransfer env now stamp ts req settings) = Inl ErrReconnectRequired
          \<longleftrightarrow> (\<exists>lastActive.
                 map_of (activeConnections ts) (''default_'' @ req_Direction req)
                   = Some lastActive
                 \<and> now - lastActive < 10 * Second))"
proof -
  have key: "getConnectionKeyWithConfig req settings = ''default_'' @ req_Direction req"
    by (simp add: getConnectionKeyWithConfig_def)
  have active: "isConnectionActive ts now (''default_'' @ req_Direction req)
      \<longleftrightarrow> (\<exists>lastActive.
                 map_of (activeConnections ts) (''default_'' @ req_Direction req)
                   = Some lastActive
                 \<and> now - lastActive < 10 * Second)"
    by (simp add: isConnectionActive_def split: option.splits)
  have "fst (StartTransfer env now stamp ts req settings) = Inl ErrReconnectRequired
          \<longleftrightarrow> isConnectionActive ts now (''default_'' @ req_Direction req)"
    using assms buildTransferConfig_not_admission [of stamp req settings]
    by (auto simp: StartTransfer_def Let_def checkTransferInterval_def key
          startTransferTask_case startTransferTask_the_not_admission
          split: option.splits sum.splits)
  then show ?thesis using key active by simp
qed

theorem single_flight_admission_witness:
  "fst (StartTransfer quiet_env (8 * Second) ''20240101_000008'' used_service
          (example_request ''tmpfs'' ''put'') example_settings) = Inl ErrReconnectRequired
   \<and> fst (StartTransfer quiet_env (15 * Second) ''20240101_000015'' used_service
          (example_request ''tmpfs'' ''put'') example_settings) \<noteq> Inl ErrReconnectRequired
   \<and> fst (StartTransfer quiet_env (8 * Second) ''20240101_000008'' used_service
          (example_request ''tmpfs'' ''get'') example_settings) \<noteq> Inl ErrReconnectRequired"
proof -
  have h: "int (length (activeTasks used_service)) < sint (maxConcurrent used_service)"
    "singleTransfer used_service" "requireReconnect used_service"
    by (simp_all add: example_defs)
  show ?thesis
    using single_flight_admission [OF h, of "example_request ''tmpfs'' ''put''" example_settings
            quiet_env "8 * Second" "''20240101_000008''"]
      single_flight_admission [OF h, of "example_request ''tmpfs'' ''put''" example_settings
            quiet_env "15 * Second" "''20240101_000015''"]
      single_flight_admission [OF h, of "example_request ''tmpfs'' ''get''" example_settings
            quiet_env "8 * Second" "''20240101_000008''"]
    by (simp add: used_service_def example_request_def Second_def)
qed


section \<open>Properties of the task list\<close>

text \<open>Signed 64-bit arithmetic is exact while the result stays in range.\<close>

lemma stb63: "- (2 ^ 63) \<le> k \<Longrightarrow> k < 2 ^ 63 \<Longrightarrow> signed_take_bit (63::nat) k = (k::int)"
  by (rule signed_take_bit_int_eq_self)

lemma sint_sub1:
  "- (2 ^ 63) < sint (p :: go_int) \<Longrightarrow> sint (p - 1) = sint p - 1"
  using sint_lt [of p] by (simp add: sint_word_diff stb63)

lemma sint_mult_exact:
  "- (2 ^ 63) \<le> sint a * sint b \<Longrightarrow> sint a * sint b < 2 ^ 63
     \<Longrightarrow> sint (a * b :: go_int) = sint a * sint b"
  by (simp add: sint_word_mult stb63)

lemma sint_add_exact:
  "- (2 ^ 63) \<le> sint a + sint b \<Longrightarrow> sint a + sint b < 2 ^ 63
     \<Longrightarrow> sint (a + b :: go_int) = sint a + sint b"
  by (simp add: sint_word_add stb63)

lemma sint_diff_exact:
  "- (2 ^ 63) \<le> sint a - sint b \<Longrightarrow> sint a - sint b < 2 ^ 63
     \<Longrightarrow> sint (a - b :: go_int) = sint a - sint b"
  by (simp add: sint_word_diff stb63)

lemma sint_len:
  "n < 2 ^ 63 \<Longrightarrow> sint (word_of_nat n :: go_int) = int n"
proof -
  assume "n < 2 ^ 63"
  then have "int n < 2 ^ 63" by (metis of_nat_less_iff of_nat_numeral of_nat_power)
  then show ?thesis
    by (simp add: signed_of_nat stb63)
qed



lemma maxAlloc_len:
  "PtrSize * int n \<le> maxAlloc \<Longrightarrow> n < 2 ^ 63"
proof -
  assume "PtrSize * int n \<le> maxAlloc"
  then have "int n < 2 ^ 63" by (simp add: PtrSize_def maxAlloc_def)
  then show ?thesis by (metis of_nat_less_iff of_nat_numeral of_nat_power)
qed

text \<open>
  C10, as stated, fails in two ways for a page of at most 0. Where the product wraps
  around, the call returns: with page -3 and size \<open>2^62\<close> the lower bound
  \<open>(page - 1) * size\<close> is \<open>- 2^64\<close>, which is 0 in 64 bits, and the answer is the whole
  one-element history. And where the size is beyond what \<open>make\<close> accepts, the slice
  expression is not reached: with page 0 and size \<open>2^50\<close> the lower bound is negative,
  and the program panics in \<open>make\<close>, although no memory is refused.
\<close>

theorem ListTransfers_no_slice_panic_counterexample:
  "sint (- 3 :: go_int) \<le> 0 \<and> 0 < sint (4611686018427387904 :: go_int)
   \<and> taskHistory (service_with_history [example_task 1]) \<noteq> []
   \<and> ListTransfers (\<lambda>n. True) (service_with_history [example_task 1]) (- 3)
         4611686018427387904
       = (Inr \<lparr> Tasks = [example_task 1], Total = 1, Page = - 3,
                 Size = 4611686018427387904 \<rparr>,
          service_with_history [example_task 1])
   \<and> sint (0 :: go_int) \<le> 0 \<and> 0 < sint (1125899906842624 :: go_int)
   \<and> sint ((0 - 1) * 1125899906842624 :: go_int) < 0
   \<and> ListTransfers (\<lambda>n. True) (service_with_history [example_task 1]) 0 1125899906842624
       = (Inl PanicMakeSliceLen, service_with_history [example_task 1])"
  by (simp add: ListTransfers_def service_with_history_def Let_def maxAlloc_def PtrSize_def)

lemma ListTransfers_nonpositive_page:
  assumes len: "PtrSize * int (length (taskHistory ts)) \<le> maxAlloc"
    and size: "0 < sint size_n"
    and page: "sint page \<le> 0"
    and nonempty: "taskHistory ts \<noteq> []"
    and range: "- (2 ^ 63) \<le> (sint page - 1) * sint size_n"
  shows "sint ((page - 1) * size_n) < 0
         \<and> ListTransfers can_allocate ts page size_n =
             (Inl (if maxAlloc < PtrSize * sint size_n then PanicMakeSliceLen
                   else if \<not> can_allocate (nat (PtrSize * sint size_n)) then FatalOutOfMemory
                   else PanicSliceBounds), ts)"
proof -
  define P N S where "P = sint page" and "N = sint size_n" and "S = (sint page - 1) * sint size_n"
  have N: "1 \<le> N" and P: "P - 1 \<le> - 1" using size page by (simp_all add: P_def N_def)
  have "(P - 1) * N \<le> (P - 1) * 1"
    by (rule mult_left_mono_neg) (use N P in auto)
  then have le: "S \<le> P - 1" by (simp add: S_def P_def N_def)
  have lo: "- (2 ^ 63) \<le> S" using range by (simp add: S_def)
  have neg: "S < 0" using le P by linarith
  have "- (2 ^ 63) < P" using le lo by linarith
  then have p1: "sint (page - 1) = sint page - 1"
    unfolding P_def by (rule sint_sub1)
  have "sint ((page - 1) * size_n) = sint (page - 1) * sint size_n"
    by (rule sint_mult_exact) (use lo neg in \<open>simp_all add: p1 S_def [symmetric]\<close>)
  then have start: "sint ((page - 1) * size_n) = S" by (simp add: p1 S_def)
  have N63: "N < 2 ^ 63" using sint_lt [of size_n] by (simp add: N_def)
  have "sint ((page - 1) * size_n + size_n) = sint ((page - 1) * size_n) + sint size_n"
    by (rule sint_add_exact) (use lo neg N N63 in \<open>simp_all add: start N_def [symmetric]\<close>)
  then have end0: "sint ((page - 1) * size_n + size_n) = S + N" by (simp add: start N_def)
  have total: "sint (word_of_nat (length (taskHistory ts)) :: go_int)
                 = int (length (taskHistory ts))"
    by (rule sint_len [OF maxAlloc_len [OF len]])
  have tpos: "0 < int (length (taskHistory ts))" using nonempty by simp
  have "S + N = P * N" by (simp add: S_def P_def N_def algebra_simps)
  moreover have "P * N \<le> 0" using page size by (simp add: P_def N_def mult_le_0_iff)
  ultimately have endle: "S + N \<le> 0" by simp
  have diff: "(page - 1) * size_n + size_n - (page - 1) * size_n = size_n" by simp
  have sz: "\<not> sint size_n < 0" "0 < sint size_n" using size by simp_all
  show ?thesis
    using neg tpos endle sz
    by (simp add: ListTransfers_def Let_def start end0 total diff)
qed

lemma ListTransfers_positive_page:
  assumes len: "PtrSize * int (length (taskHistory ts)) \<le> maxAlloc"
    and size: "0 < sint size_n"
    and page: "1 \<le> sint page"
    and range: "sint page * sint size_n < 2 ^ 63"
  shows "ListTransfers can_allocate ts page size_n =
           (let tasks = take (nat (sint size_n))
                          (drop (nat ((sint page - 1) * sint size_n)) (taskHistory ts))
            in if tasks \<noteq> [] \<and> \<not> can_allocate (nat PtrSize * length tasks)
                 then (Inl FatalOutOfMemory, ts)
               else (Inr \<lparr> Tasks = tasks,
                            Total = word_of_nat (length (taskHistory ts)),
                            Page = page, Size = size_n \<rparr>, ts))"
proof -
  define P N L S where "P = sint page" and "N = sint size_n"
    and "L = int (length (taskHistory ts))" and "S = (sint page - 1) * sint size_n"
  have N: "1 \<le> N" and P: "0 \<le> P - 1" using size page by (simp_all add: P_def N_def)
  have S0: "0 \<le> S" using N P by (simp add: S_def P_def N_def)
  have "S + N = P * N" by (simp add: S_def P_def N_def algebra_simps)
  then have hi: "S + N < 2 ^ 63" using range by (simp add: P_def N_def)
  have Shi: "S < 2 ^ 63" using hi N by linarith
  have p1: "sint (page - 1) = sint page - 1"
    by (rule sint_sub1) (use page in simp)
  have "sint ((page - 1) * size_n) = sint (page - 1) * sint size_n"
    by (rule sint_mult_exact) (use S0 Shi in \<open>simp_all add: p1 S_def [symmetric]\<close>)
  then have start: "sint ((page - 1) * size_n) = S" by (simp add: p1 S_def)
  have "sint ((page - 1) * size_n + size_n) = sint ((page - 1) * size_n) + sint size_n"
    by (rule sint_add_exact) (use S0 N hi in \<open>simp_all add: start N_def [symmetric]\<close>)
  then have end0: "sint ((page - 1) * size_n + size_n) = S + N" by (simp add: start N_def)
  have len63: "length (taskHistory ts) < 2 ^ 63" by (rule maxAlloc_len [OF len])
  have total: "sint (word_of_nat (length (taskHistory ts)) :: go_int) = L"
    unfolding L_def by (rule sint_len [OF len63])
  have L63: "L < 2 ^ 63" using len63 unfolding L_def
    by (metis of_nat_less_iff of_nat_numeral of_nat_power)
  have L0: "0 \<le> L" by (simp add: L_def)
  have Lmax: "PtrSize * L \<le> maxAlloc" using len by (simp add: L_def)
  have diff: "(page - 1) * size_n + size_n - (page - 1) * size_n = size_n" by simp
  define tasks where "tasks = take (nat N) (drop (nat S) (taskHistory ts))"
  have goal: "ListTransfers can_allocate ts page size_n =
           (if tasks \<noteq> [] \<and> \<not> can_allocate (nat PtrSize * length tasks)
              then (Inl FatalOutOfMemory, ts)
            else (Inr \<lparr> Tasks = tasks,
                         Total = word_of_nat (length (taskHistory ts)),
                         Page = page, Size = size_n \<rparr>, ts))"
  proof (cases "L \<le> S")
    case True
    then have "length (taskHistory ts) \<le> nat S" by (simp add: L_def)
    then have "tasks = []" by (simp add: tasks_def)
    then show ?thesis
      using True by (simp add: ListTransfers_def Let_def start total)
  next
    case False
    show ?thesis
    proof (cases "L < S + N")
      case True
      have "sint (word_of_nat (length (taskHistory ts)) - (page - 1) * size_n :: go_int)
              = sint (word_of_nat (length (taskHistory ts)) :: go_int)
                - sint ((page - 1) * size_n)"
        by (rule sint_diff_exact) (use False S0 L63 L0 in \<open>simp_all add: start total\<close>)
      then have d: "sint (word_of_nat (length (taskHistory ts)) - (page - 1) * size_n :: go_int)
                 = L - S"
        by (simp add: start total)
      have "length (drop (nat S) (taskHistory ts)) \<le> nat N"
        using True False S0 by (simp add: L_def)
      then have t: "tasks = drop (nat S) (taskHistory ts)"
        by (simp add: tasks_def)
      have k: "int (length tasks) = L - S"
        using False S0 by (simp add: t L_def)
      then have k2: "nat (L - S) = length tasks" by simp
      have t2: "take (nat (L - S)) (drop (nat S) (taskHistory ts)) = tasks"
        by (simp add: k2 t)
      have ne: "tasks \<noteq> []" using k False by auto
      have pos: "0 < L - S" "\<not> L - S < 0" "S \<le> L" using False by simp_all
      have bytes: "nat (PtrSize * (L - S)) = nat PtrSize * length tasks"
        using k by (simp add: PtrSize_def nat_mult_distrib)
      have fits: "\<not> maxAlloc < PtrSize * (L - S)"
        using Lmax S0 by (simp add: PtrSize_def)
      show ?thesis
        using True False S0 pos ne fits
        by (simp add: ListTransfers_def Let_def start end0 total d t2 bytes)
    next
      case ge: False
      have "nat N \<le> length (drop (nat S) (taskHistory ts))"
        using ge S0 N by (simp add: L_def)
      then have k: "length tasks = nat N" by (simp add: tasks_def)
      have ne: "tasks \<noteq> []" using k N by auto
      have bytes: "nat (PtrSize * N) = nat PtrSize * length tasks"
        using k N by (simp add: PtrSize_def nat_mult_distrib)
      have fits: "\<not> maxAlloc < PtrSize * N"
        using Lmax ge S0 by (simp add: PtrSize_def)
      have nn: "\<not> N < 0" "0 < N" "S \<le> S + N" using N by simp_all
      show ?thesis
        using ge False S0 nn ne fits
        by (simp add: ListTransfers_def Let_def start end0 total diff
              N_def [symmetric] bytes tasks_def [symmetric])
    qed
  qed
  then show ?thesis by (simp add: N_def S_def tasks_def Let_def)
qed

text \<open>
  C10, amended. The history, as every slice of pointers, takes at most \<open>maxAlloc\<close>
  bytes, and the size is positive. For a page of at most 0, a non-empty history and a
  product \<open>(page - 1) * size\<close> that does not overflow, the lower bound is negative and
  the call gives no answer: \<open>make\<close> panics when \<open>size\<close> pointers take more than
  \<open>maxAlloc\<close> bytes, the runtime ends the program when it cannot obtain them, and
  otherwise the slice expression panics. For a page of at least 1 and a product
  \<open>page * size\<close> that does not overflow, the call returns the elements of the history
  from \<open>(page - 1) * size\<close> on, at most \<open>size\<close> of them, and leaves the service as it
  was, unless the runtime cannot obtain the memory of a non-empty answer.
\<close>

theorem ListTransfers_pages:
  assumes "PtrSize * int (length (taskHistory ts)) \<le> maxAlloc" and "0 < sint size_n"
  shows "(sint page \<le> 0 \<and> taskHistory ts \<noteq> []
            \<and> - (2 ^ 63) \<le> (sint page - 1) * sint size_n
          \<longrightarrow> sint ((page - 1) * size_n) < 0
              \<and> ListTransfers can_allocate ts page size_n =
                  (Inl (if maxAlloc < PtrSize * sint size_n then PanicMakeSliceLen
                        else if \<not> can_allocate (nat (PtrSize * sint size_n))
                          then FatalOutOfMemory
                        else PanicSliceBounds), ts))
       \<and> (1 \<le> sint page \<and> sint page * sint size_n < 2 ^ 63
          \<longrightarrow> ListTransfers can_allocate ts page size_n =
                (let tasks = take (nat (sint size_n))
                               (drop (nat ((sint page - 1) * sint size_n)) (taskHistory ts))
                 in if tasks \<noteq> [] \<and> \<not> can_allocate (nat PtrSize * length tasks)
                      then (Inl FatalOutOfMemory, ts)
                    else (Inr \<lparr> Tasks = tasks,
                                 Total = word_of_nat (length (taskHistory ts)),
                                 Page = page, Size = size_n \<rparr>, ts)))"
  using ListTransfers_nonpositive_page [OF assms, of page can_allocate]
    ListTransfers_positive_page [OF assms, of page can_allocate]
  by blast

theorem ListTransfers_pages_witness:
  "ListTransfers (\<lambda>n. True)
     (service_with_history [example_task 1, example_task 2, example_task 3]) 0 10
     = (Inl PanicSliceBounds,
        service_with_history [example_task 1, example_task 2, example_task 3])
   \<and> ListTransfers (\<lambda>n. n \<le> 64)
     (service_with_history [example_task 1, example_task 2, example_task 3]) 0 10
     = (Inl FatalOutOfMemory,
        service_with_history [example_task 1, example_task 2, example_task 3])
   \<and> ListTransfers (\<lambda>n. True)
       (service_with_history [example_task 1, example_task 2, example_task 3]) 2 2
     = (Inr \<lparr> Tasks = [example_task 3], Total = 3, Page = 2, Size = 2 \<rparr>,
        service_with_history [example_task 1, example_task 2, example_task 3])"
proof -
  have h: "PtrSize * int (length (taskHistory
             (service_with_history [example_task 1, example_task 2, example_task 3])))
             \<le> maxAlloc"
    "0 < sint (10 :: go_int)" "0 < sint (2 :: go_int)"
    by (simp_all add: service_with_history_def PtrSize_def maxAlloc_def)
  show ?thesis
    using ListTransfers_pages [OF h(1) h(2), of 0 "\<lambda>n. True"]
      ListTransfers_pages [OF h(1) h(2), of 0 "\<lambda>n. n \<le> 64"]
      ListTransfers_pages [OF h(1) h(3), of 2 "\<lambda>n. True"]
    by (simp add: service_with_history_def PtrSize_def maxAlloc_def Let_def)
qed


section \<open>Properties of the process manager\<close>

lemmas state_defs = StateStarting_def StateRunning_def StateStopping_def StateStopped_def
  StateError_def

lemma started_manager_eq:
  "started_manager =
     (\<lparr> spawned = 1, alive = {0} \<rparr>,
      \<lparr> process = Some (example_cmd, 0),
        info = \<lparr> PID = 0, State = StateRunning, proc_StartTime = 0, ExitTime = None,
                 ExitCode = None, proc_Error = [],
                 CommandLine = ''/usr/local/bin/rtranfile [/usr/local/bin/rtranfile -d mlx5_0 -l 0]'' \<rparr> \<rparr>)"
  by (simp add: started_manager_def Start_def NewProcessManager_def quiet_env_def
        initial_world_def example_cmd_def state_defs Let_def)

text \<open>
  C9, as stated, fails where the forced kill itself fails: a running process that
  ignores the interrupt and cannot be killed after the timeout leaves \<open>Stop\<close> with an error,
  the state error and no exit time.
\<close>

theorem Stop_kill_failure_counterexample:
  "IsRunning (fst started_manager) (snd started_manager)
   \<and> fst (Stop stuck_env (10 * Second) (fst started_manager) (snd started_manager))
       = Some (ErrStopTimeout ''operation not permitted'')
   \<and> ExitTime (info (snd (snd
         (Stop stuck_env (10 * Second) (fst started_manager) (snd started_manager))))) = None
   \<and> State (info (snd (snd
         (Stop stuck_env (10 * Second) (fst started_manager) (snd started_manager)))))
       = StateError"
  by (simp add: started_manager_eq IsRunning_def Stop_def stuck_env_def quiet_env_def
        state_defs Let_def)

text \<open>
  C9, amended. \<open>Stop\<close> on a running process leaves a terminal state on every return
  path. Where a kill fails (after a failed interrupt, or after the timeout) it returns
  an error with the state error and no exit time; on every other path, the timeout path
  with its forced kill included, it returns no error, the exit time is recorded, the
  command is released and the process is gone.
\<close>

theorem Stop_finalizes:
  assumes "IsRunning w pm" and "process pm = Some (cmd, h)"
  shows "State (info (snd (snd (Stop env now w pm)))) \<in> {StateStopped, StateError}
     \<and> (if (interrupt_err env h \<noteq> None \<and> kill_err env h \<noteq> None)
            \<or> (\<not> exits_in_time env h \<and> timeout_kill_err env h \<noteq> None)
         then fst (Stop env now w pm) \<noteq> None
              \<and> State (info (snd (snd (Stop env now w pm)))) = StateError
              \<and> ExitTime (info (snd (snd (Stop env now w pm)))) = None
         else fst (Stop env now w pm) = None
              \<and> ExitTime (info (snd (snd (Stop env now w pm)))) = Some now
              \<and> process (snd (snd (Stop env now w pm))) = None
              \<and> h \<notin> alive (fst (snd (Stop env now w pm))))"
  using assms
  by (auto simp: IsRunning_def Stop_def Let_def split: option.splits if_splits prod.splits)

theorem Stop_finalizes_witness:
  "IsRunning (fst started_manager) (snd started_manager)
   \<and> Stop quiet_env (3 * Second) (fst started_manager) (snd started_manager)
     = (None, \<lparr> spawned = 1, alive = {} \<rparr>,
        \<lparr> process = None,
          info = \<lparr> PID = 0, State = StateStopped, proc_StartTime = 0,
                   ExitTime = Some (3 * Second), ExitCode = None, proc_Error = [],
                   CommandLine = ''/usr/local/bin/rtranfile [/usr/local/bin/rtranfile -d mlx5_0 -l 0]'' \<rparr> \<rparr>)
   \<and> ExitTime (info (snd (snd
         (Stop quiet_env (3 * Second) (fst started_manager) (snd started_manager)))))
       = Some (3 * Second)"
proof -
  have r: "IsRunning (fst started_manager) (snd started_manager)"
    by (simp add: started_manager_eq IsRunning_def)
  have p: "process (snd started_manager) = Some (example_cmd, 0)"
    by (simp add: started_manager_eq)
  have e: "Stop quiet_env (3 * Second) (fst started_manager) (snd started_manager)
     = (None, \<lparr> spawned = 1, alive = {} \<rparr>,
        \<lparr> process = None,
          info = \<lparr> PID = 0, State = StateStopped, proc_StartTime = 0,
                   ExitTime = Some (3 * Second), ExitCode = None, proc_Error = [],
                   CommandLine = ''/usr/local/bin/rtranfile [/usr/local/bin/rtranfile -d mlx5_0 -l 0]'' \<rparr> \<rparr>)"
    by (simp add: started_manager_eq Stop_def quiet_env_def state_defs Let_def)
  show ?thesis
    using Stop_finalizes [OF r p, of quiet_env "3 * Second"] r e
    by (simp add: quiet_env_def)
qed

section \<open>Properties of the listener registry\<close>








































end
